theory Spec2Isabelle
  imports Main "HOL-Library.Word"
begin

section \<open>JavaScript strings\<close>

text \<open>
  A JavaScript string is a sequence of UTF-16 code units; \<open>length\<close>, \<open>slice\<close>,
  \<open>startsWith\<close> and the regular expressions of the source all count code units.
  \<open>utf16\<close> writes the ASCII literals of the source.
\<close>

type_synonym jschar = "16 word"
type_synonym jsstring = "jschar list"

definition utf16 :: "string \<Rightarrow> jsstring" where
  "utf16 s = map of_char s"

text \<open>The class \<open>\s\<close> of a regular expression, which is also what \<open>trim()\<close> strips:
  WhiteSpace and LineTerminator of ECMAScript.\<close>

definition is_whitespace :: "jschar \<Rightarrow> bool" where
  "is_whitespace c =
     (c \<in> {0x9, 0xA, 0xB, 0xC, 0xD, 0x20, 0xA0, 0x1680, 0x2028, 0x2029, 0x202F, 0x205F,
            0x3000, 0xFEFF}
      \<or> (0x2000 \<le> c \<and> c \<le> 0x200A))"

text \<open>The characters that \<open>.\<close> of a regular expression (without the \<open>s\<close> flag) refuses.\<close>

definition is_line_terminator :: "jschar \<Rightarrow> bool" where
  "is_line_terminator c = (c \<in> {0xA, 0xD, 0x2028, 0x2029})"

text \<open>The class \<open>[.!?]\<close>.\<close>

definition is_terminal_punct :: "jschar \<Rightarrow> bool" where
  "is_terminal_punct c = (c \<in> {0x2E, 0x21, 0x3F})"

definition trim :: "jsstring \<Rightarrow> jsstring" where
  "trim s = rev (dropWhile is_whitespace (rev (dropWhile is_whitespace s)))"

definition starts_with :: "jsstring \<Rightarrow> jsstring \<Rightarrow> bool" where
  "starts_with p s = (take (length p) s = p)"

text \<open>\<open>s.split(sep)\<close> for a one-character separator: never empty, \<open>''''.split\<close> is \<open>['''']\<close>.\<close>

fun split_on :: "'a \<Rightarrow> 'a list \<Rightarrow> 'a list list" where
  "split_on sep [] = [[]]"
| "split_on sep (c # cs) =
     (if c = sep then [] # split_on sep cs
      else (case split_on sep cs of
              [] \<Rightarrow> [[c]]
            | l # ls \<Rightarrow> (c # l) # ls))"

text \<open>\<open>xs.join(sep)\<close>.\<close>

fun join :: "'a list \<Rightarrow> 'a list list \<Rightarrow> 'a list" where
  "join sep [] = []"
| "join sep [x] = x"
| "join sep (x # y # ys) = x @ sep @ join sep (y # ys)"

text \<open>A non-negative integer inside a template literal: its decimal digits.\<close>

fun show_nat :: "nat \<Rightarrow> jsstring" where
  "show_nat n =
     (if n < 10 then [of_nat (48 + n)]
      else show_nat (n div 10) @ [of_nat (48 + n mod 10)])"

text \<open>\<open>xs.slice(-k)\<close>: the last \<open>k\<close> elements, all of them when there are fewer.\<close>

definition slice_last :: "nat \<Rightarrow> 'a list \<Rightarrow> 'a list" where
  "slice_last k xs = drop (length xs - k) xs"

text \<open>\<open>xs.slice(0, -k)\<close>: all but the last \<open>k\<close> elements.\<close>

definition slice_drop_last :: "nat \<Rightarrow> 'a list \<Rightarrow> 'a list" where
  "slice_drop_last k xs = take (length xs - k) xs"

text \<open>
  \<open>xs[i] = v\<close> on a JavaScript array: inside the array it replaces the slot; at or beyond
  the end the array grows, the slots in between being holes (read as \<open>undefined\<close>). A slot
  is therefore an \<open>option\<close>, \<open>None\<close> the hole.
\<close>

definition array_assign :: "'a option list \<Rightarrow> nat \<Rightarrow> 'a \<Rightarrow> 'a option list" where
  "array_assign xs i v =
     (if i < length xs then xs[i := Some v]
      else xs @ replicate (i - length xs) None @ [Some v])"

text \<open>
  A position given to \<open>slice\<close>, as \<open>slice\<close> converts its argument: an integer, or an
  infinity.
\<close>

datatype position = MinusInfinity | At int | PlusInfinity

text \<open>\<open>s.slice(start)\<close> on a string: a negative start counts from the end.\<close>

fun string_slice :: "jsstring \<Rightarrow> position \<Rightarrow> jsstring" where
  "string_slice s MinusInfinity = s"
| "string_slice s (At k) =
     (if k < 0 then drop (nat (int (length s) + k)) s else drop (nat k) s)"
| "string_slice s PlusInfinity = []"

text \<open>
  A value that a field meant for text can hold once it has come through \<open>JSON.parse\<close>: a
  string, or any other value (a number, a boolean, an object, an array). Of a value that
  is not a string the code below sees two things, and \<open>NonStr\<close> carries them: what its
  \<open>length\<close> gives as a position (position 0 when it has none), and, for every position,
  the text that its \<open>slice\<close> from there adds to a string, \<open>None\<close> when it has no \<open>slice\<close>
  and the call throws (an array has one; a number, a boolean and an object have not).
\<close>

datatype js_text = Str jsstring | NonStr position "position \<Rightarrow> jsstring option"

text \<open>The value in a condition: a string counts when it is not empty, any other value
  that gets this far counts (the falsy ones are read as the empty string).\<close>

fun truthy :: "js_text \<Rightarrow> bool" where
  "truthy (Str s) = (s \<noteq> [])"
| "truthy (NonStr len sl) = True"

fun js_length :: "js_text \<Rightarrow> position" where
  "js_length (Str s) = At (int (length s))"
| "js_length (NonStr len sl) = len"

fun js_slice :: "js_text \<Rightarrow> position \<Rightarrow> jsstring option" where
  "js_slice (Str s) start = Some (string_slice s start)"
| "js_slice (NonStr len sl) start = sl start"


section \<open>The debate page (Debate.tsx)\<close>

datatype role = User | Assistant

record message =
  role :: role
  content :: js_text

record source =
  source_id :: jsstring
  source_number :: nat
  title :: jsstring
  summary :: jsstring

record source_group =
  sg_turnIndex :: nat
  sg_sources :: "source list"

text \<open>
  A parsed event of the stream, as the page reads it: \<open>parsed.done\<close> (its truthiness),
  \<open>parsed.fullText\<close> (any value; the empty string stands for an absent field and for
  every other falsy value), \<open>parsed.turn_index\<close> and \<open>parsed.retrieved\<close>.
\<close>

record payload =
  p_done :: bool
  p_fullText :: js_text
  p_turn_index :: nat
  p_retrieved :: "source list"

text \<open>
  The state of the page: the React state (\<open>conversation\<close>, \<open>sourceGroups\<close>, \<open>turnIndex\<close>,
  \<open>userInput\<close>, \<open>isLoading\<close>), the local variables of the running \<open>handleSendMessage\<close>
  (\<open>fullText\<close>, \<open>sentenceBuffer\<close>, \<open>metadata\<close>), and the effects it has had: the sentences
  passed to \<open>playTTS\<close> and the failure notices shown, in order.
\<close>

record debate =
  conversation :: "message option list"
  sourceGroups :: "source_group list"
  turnIndex :: nat
  userInput :: jsstring
  isLoading :: bool
  fullText :: js_text
  sentenceBuffer :: jsstring
  metadata :: "payload option"
  ttsCalls :: "jsstring list"
  toasts :: "jsstring list"

text \<open>
  The match of \<open>/^(.*?[.!?](?:\s|$))/\<close> against the buffer: the length of the matched
  prefix (group 1 is the whole match), \<open>None\<close> when there is no match. The lazy \<open>.*?\<close>
  stops at the first terminal punctuation that is followed by white space or by the end of
  the buffer, and cannot step over a line terminator.
\<close>

fun sentence_match :: "jsstring \<Rightarrow> nat option" where
  "sentence_match [] = None"
| "sentence_match (c # cs) =
     (if is_terminal_punct c \<and> (case cs of [] \<Rightarrow> True | d # _ \<Rightarrow> is_whitespace d)
      then Some (case cs of [] \<Rightarrow> 1 | _ # _ \<Rightarrow> 2)
      else if is_line_terminator c then None
      else map_option Suc (sentence_match cs))"

text \<open>
  The branch \<open>else if (parsed.fullText)\<close> of the stream loop. The value is assigned to
  \<open>fullText\<close> before its \<open>slice\<close> is called; when that call throws, the \<open>catch\<close> around the
  line takes over and nothing else of the branch happens.
\<close>

definition on_full_text :: "nat \<Rightarrow> js_text \<Rightarrow> debate \<Rightarrow> debate" where
  "on_full_text aiMessageIndex parsedFullText d =
     (let previousLength = js_length (fullText d);
          d0 = d\<lparr>fullText := parsedFullText\<rparr>
      in case js_slice parsedFullText previousLength of
           None \<Rightarrow> d0
         | Some newText \<Rightarrow>
             (let buffer = sentenceBuffer d @ newText;
                  d1 = d0\<lparr>sentenceBuffer := buffer,
                          conversation := array_assign (conversation d) aiMessageIndex
                                            \<lparr>role = Assistant, content = parsedFullText\<rparr>\<rparr>
              in case sentence_match buffer of
                   None \<Rightarrow> d1
                 | Some n \<Rightarrow>
                     let completeSentence = trim (take n buffer);
                         d2 = d1\<lparr>sentenceBuffer := drop n buffer\<rparr>
                     in if completeSentence = [] then d2
                        else d2\<lparr>ttsCalls := ttsCalls d2 @ [completeSentence]\<rparr>))"

text \<open>One line of a chunk. \<open>parse\<close> is \<open>JSON.parse\<close> followed by the reading of the
  fields above; \<open>None\<close> when it throws, also for \<open>null\<close>, whose fields cannot be read.\<close>

definition process_line :: "(jsstring \<Rightarrow> payload option) \<Rightarrow> nat \<Rightarrow> debate \<Rightarrow> jsstring \<Rightarrow> debate" where
  "process_line parse aiMessageIndex d line =
     (if starts_with (utf16 ''data: '') line then
        (case parse (trim (drop 6 line)) of
           None \<Rightarrow> d
         | Some parsed \<Rightarrow>
             if p_done parsed then d\<lparr>metadata := Some parsed\<rparr>
             else if truthy (p_fullText parsed) then on_full_text aiMessageIndex (p_fullText parsed) d
             else d)
      else d)"

definition process_chunk :: "(jsstring \<Rightarrow> payload option) \<Rightarrow> nat \<Rightarrow> debate \<Rightarrow> jsstring \<Rightarrow> debate" where
  "process_chunk parse aiMessageIndex d chunk =
     foldl (process_line parse aiMessageIndex) d (split_on 0xA chunk)"

text \<open>After the loop: the rest of the buffer goes to \<open>playTTS\<close> unless it is blank.\<close>

definition flush_buffer :: "debate \<Rightarrow> debate" where
  "flush_buffer d =
     (if trim (sentenceBuffer d) = [] then d
      else d\<lparr>ttsCalls := ttsCalls d @ [trim (sentenceBuffer d)]\<rparr>)"

definition apply_metadata :: "debate \<Rightarrow> debate" where
  "apply_metadata d =
     (case metadata d of
        None \<Rightarrow> d
      | Some m \<Rightarrow>
          d\<lparr>sourceGroups := sourceGroups d @ [\<lparr>sg_turnIndex = p_turn_index m, sg_sources = p_retrieved m\<rparr>],
            turnIndex := p_turn_index m\<rparr>)"

text \<open>The \<open>catch\<close> block: a notice, and the last two messages are removed.\<close>

definition on_error :: "debate \<Rightarrow> debate" where
  "on_error d =
     d\<lparr>toasts := toasts d @ [utf16 ''Failed to send message''],
       conversation := slice_drop_last 2 (conversation d)\<rparr>"

text \<open>
  What \<open>fetch\<close> and the reading of the body give the page: the request is rejected, the
  status is not ok, the response has no body, or a sequence of decoded chunks that either
  comes to its end or stops with a read error.
\<close>

datatype stream_end = Closed | Errored

datatype client_fetch =
    FetchRejected
  | HttpError
  | NoStream
  | Streaming "jsstring list" stream_end

definition handleSendMessage :: "(jsstring \<Rightarrow> payload option) \<Rightarrow> client_fetch \<Rightarrow> debate \<Rightarrow> debate" where
  "handleSendMessage parse response d =
     (if trim (userInput d) = [] \<or> isLoading d then d
      else
        let messageText = userInput d;
            userMessage = \<lparr>role = User, content = Str messageText\<rparr>;
            d1 = d\<lparr>conversation := conversation d @ [Some userMessage],
                   userInput := [], isLoading := True\<rparr>;
            aiMessageIndex = length (conversation d) + 1;
            d2 = d1\<lparr>conversation := conversation d1 @ [Some \<lparr>role = Assistant, content = Str []\<rparr>]\<rparr>;
            d3 = d2\<lparr>fullText := Str [], sentenceBuffer := [], metadata := None\<rparr>;
            d4 = (case response of
                    FetchRejected \<Rightarrow> on_error d3
                  | HttpError \<Rightarrow> on_error d3
                  | NoStream \<Rightarrow> on_error d3
                  | Streaming chunks ending \<Rightarrow>
                      (let d' = foldl (process_chunk parse aiMessageIndex) d3 chunks
                       in case ending of
                            Errored \<Rightarrow> on_error d'
                          | Closed \<Rightarrow> apply_metadata (flush_buffer d')))
        in d4\<lparr>isLoading := False\<rparr>)"

text \<open>
  The page as it is mounted: the \<open>useState\<close> initialisers read the navigation state
  (\<open>location.state?.conversation || []\<close>, \<open>location.state?.turn_index || 1\<close>, where
  an absent and a zero index both give 1).
\<close>

definition debate_page_init :: "message option list \<Rightarrow> source_group list \<Rightarrow> nat option \<Rightarrow> debate" where
  "debate_page_init conv groups state_turn_index =
     \<lparr>conversation = conv,
      sourceGroups = groups,
      turnIndex = (case state_turn_index of None \<Rightarrow> 1 | Some t \<Rightarrow> if t = 0 then 1 else t),
      userInput = [],
      isLoading = False,
      fullText = Str [],
      sentenceBuffer = [],
      metadata = None,
      ttsCalls = [],
      toasts = []\<rparr>"

text \<open>The segmenter alone: the text updates of one answer, one after the other.\<close>

definition feed_updates :: "nat \<Rightarrow> jsstring list \<Rightarrow> debate \<Rightarrow> debate" where
  "feed_updates aiMessageIndex updates d =
     foldl (\<lambda>d u. on_full_text aiMessageIndex (Str u) d) d updates"

text \<open>Every update extends the one before it.\<close>

fun growing :: "jsstring \<Rightarrow> jsstring list \<Rightarrow> bool" where
  "growing prev [] = True"
| "growing prev (u # us) = (take (length prev) u = prev \<and> growing u us)"


section \<open>Speech playback (Debate.tsx)\<close>

text \<open>
  The audio element behind \<open>audioRef\<close>: the clip it holds and whether it is paused. A
  clip is the object URL made from a synthesis response; it is named here by the sentence
  it speaks.
\<close>

record audio_element =
  src :: jsstring
  paused :: bool

text \<open>
  \<open>audioQueueRef\<close>, \<open>isPlayingQueueRef\<close>, \<open>audioRef\<close> and \<open>isPlayingAudio\<close> of the page,
  with two traces: the sentences given to \<open>playTTS\<close>, and the clips on which \<open>play()\<close>
  was called, both in order.
\<close>

record player =
  audioQueue :: "jsstring list"
  isPlayingQueue :: bool
  audioRef :: "audio_element option"
  isPlayingAudio :: bool
  requested :: "jsstring list"
  started :: "jsstring list"

definition player_init :: player where
  "player_init =
     \<lparr>audioQueue = [], isPlayingQueue = False, audioRef = None, isPlayingAudio = False,
      requested = [], started = []\<rparr>"

definition playNextInQueue :: "player \<Rightarrow> player" where
  "playNextInQueue p =
     (case audioQueue p of
        [] \<Rightarrow> p\<lparr>isPlayingQueue := False, isPlayingAudio := False\<rparr>
      | audioUrl # rest \<Rightarrow>
          let element = (case audioRef p of
                           Some a \<Rightarrow> a\<lparr>paused := True, src := audioUrl\<rparr>
                         | None \<Rightarrow> \<lparr>src = audioUrl, paused = True\<rparr>)
          in p\<lparr>isPlayingQueue := True,
               isPlayingAudio := True,
               audioQueue := rest,
               audioRef := Some (element\<lparr>paused := False\<rparr>),
               started := started p @ [audioUrl]\<rparr>)"

definition queueAudio :: "jsstring \<Rightarrow> player \<Rightarrow> player" where
  "queueAudio audioUrl p =
     (let p1 = p\<lparr>audioQueue := audioQueue p @ [audioUrl]\<rparr>
      in if isPlayingQueue p1 then p1 else playNextInQueue p1)"

text \<open>\<open>stopAudio\<close>; the rewinding of the element (\<open>currentTime = 0\<close>) is not part of the
  element modelled here.\<close>

definition stopAudio :: "player \<Rightarrow> player" where
  "stopAudio p =
     p\<lparr>audioQueue := [],
       isPlayingQueue := False,
       audioRef := (case audioRef p of None \<Rightarrow> None | Some a \<Rightarrow> Some (a\<lparr>paused := True\<rparr>)),
       isPlayingAudio := False\<rparr>"

text \<open>
  What can happen to the player. \<open>playTTS\<close> is asynchronous: the call sends the synthesis
  request (\<open>PlayTTS\<close>), and some time later the response arrives; an ok response queues
  its clip (\<open>TTSResolved\<close>), any other outcome is logged and queues nothing
  (\<open>TTSFailed\<close>). The element's \<open>onended\<close> and \<open>onerror\<close> handlers and a rejected
  \<open>play()\<close> all call \<open>playNextInQueue\<close>.
\<close>

datatype player_event =
    PlayTTS jsstring
  | TTSResolved jsstring
  | TTSFailed jsstring
  | AudioEnded
  | AudioError
  | PlayRejected
  | StopAudio

fun player_step :: "player_event \<Rightarrow> player \<Rightarrow> player" where
  "player_step (PlayTTS text) p = p\<lparr>requested := requested p @ [text]\<rparr>"
| "player_step (TTSResolved text) p = queueAudio text p"
| "player_step (TTSFailed text) p = p"
| "player_step AudioEnded p = playNextInQueue p"
| "player_step AudioError p = playNextInQueue p"
| "player_step PlayRejected p = playNextInQueue p"
| "player_step StopAudio p = stopAudio p"

definition player_run :: "player_event list \<Rightarrow> player \<Rightarrow> player" where
  "player_run es p = foldl (\<lambda>p e. player_step e p) p es"

text \<open>The clips whose synthesis came back, in the order in which it came back.\<close>

fun resolved :: "player_event list \<Rightarrow> jsstring list" where
  "resolved [] = []"
| "resolved (TTSResolved text # es) = text # resolved es"
| "resolved (_ # es) = resolved es"

fun has_stop :: "player_event list \<Rightarrow> bool" where
  "has_stop [] = False"
| "has_stop (StopAudio # es) = True"
| "has_stop (_ # es) = has_stop es"


section \<open>The turn-continuation endpoint (debate-continue/index.ts)\<close>

subsection \<open>Requests, responses of the services, calls\<close>

record hist_message =
  h_role :: jsstring
  h_content :: jsstring

record continue_request =
  session_id :: jsstring
  user_reply :: jsstring
  turn_index :: nat
  category :: jsstring
  debate_experience :: jsstring
  ai_level :: jsstring
  conversation_history :: "hist_message list"

text \<open>A match of the vector index, with the metadata the endpoint reads (score, page,
  date and url are passed through to the client untouched and are left out).\<close>

record match_metadata =
  md_text :: "jsstring option"
  md_summary :: "jsstring option"
  md_title :: "jsstring option"

record pinecone_match =
  match_id :: jsstring
  match_metadata :: "match_metadata option"

text \<open>
  The outcome of a \<open>fetch\<close>: the promise is rejected, or there is a response with its
  \<open>ok\<close> flag and body. A JSON body is \<open>Unreadable\<close> when \<open>json()\<close> throws or the value
  read from it is missing.
\<close>

datatype 'a fetched = Rejected | Responded bool 'a

datatype 'a json_body = Unreadable | Body 'a

text \<open>A chunk of the generation stream, typed as the chain
  \<open>parsed.candidates?.[0]?.content?.parts?.[0]?.text\<close> reads it.\<close>

record gemini_part =
  part_text :: "jsstring option"

record gemini_content =
  parts :: "gemini_part list option"

record gemini_candidate =
  cand_content :: "gemini_content option"

record gemini_chunk =
  candidates :: "gemini_candidate list option"

text \<open>
  Everything the endpoint gets from outside during one request: the two keys of the
  environment, the responses to its five calls (the bodies already decoded), and the two
  readings of the clock. The type \<open>'v\<close> is that of embedding vectors.
\<close>

record 'v continue_env =
  has_keys :: bool
  embedding_response :: "'v json_body fetched"
  corpus_response :: "pinecone_match list option json_body fetched"
  session_response :: "pinecone_match list option json_body fetched"
  llm_response :: "(jsstring list \<times> stream_end) option fetched"
  ai_embedding_response :: "'v json_body fetched"
  user_timestamp :: jsstring
  ai_timestamp :: jsstring

record 'v upsert =
  up_id :: jsstring
  up_values :: 'v
  up_role :: jsstring
  up_text :: jsstring
  up_turn_index :: nat
  up_timestamp :: jsstring
  up_extra :: "(jsstring \<times> jsstring) list"
  up_namespace :: jsstring

text \<open>The calls the endpoint makes: embed a text; query the index with a vector, a
  \<open>topK\<close> and a namespace; generate from a prompt; upsert a vector.\<close>

datatype 'v call =
    EmbedCall jsstring
  | QueryCall 'v nat jsstring
  | GenerateCall jsstring
  | UpsertCall "'v upsert"

text \<open>The step at which a request is given up with status 500.\<close>

datatype failure =
    MissingKeys
  | EmbeddingFailed
  | PineconeQueryFailed
  | GenerationFailed
  | UpsertFailed

text \<open>An event put on the response stream: \<open>{text, fullText}\<close>, or the final
  \<open>{done: true, fullText, retrieved, turn_index}\<close>.\<close>

datatype sse_event =
    TextEvent jsstring jsstring
  | DoneEvent jsstring "source list" nat

datatype http_result =
    Error500 failure
  | EventStream "sse_event list" stream_end

subsection \<open>Prompt assembly\<close>

text \<open>\<open>v || dflt\<close> for an optional string: the default when it is absent or empty.\<close>

definition or_else :: "jsstring option \<Rightarrow> jsstring \<Rightarrow> jsstring" where
  "or_else v dflt = (case v of None \<Rightarrow> dflt | Some s \<Rightarrow> if s = [] then dflt else s)"

definition metadata_text :: "pinecone_match \<Rightarrow> jsstring option" where
  "metadata_text m = (case match_metadata m of None \<Rightarrow> None | Some md \<Rightarrow> md_text md)"

definition metadata_summary :: "pinecone_match \<Rightarrow> jsstring option" where
  "metadata_summary m = (case match_metadata m of None \<Rightarrow> None | Some md \<Rightarrow> md_summary md)"

definition metadata_title :: "pinecone_match \<Rightarrow> jsstring option" where
  "metadata_title m = (case match_metadata m of None \<Rightarrow> None | Some md \<Rightarrow> md_title md)"

definition session_line :: "pinecone_match \<Rightarrow> jsstring" where
  "session_line m = utf16 ''[Previous Turn]: '' @ or_else (metadata_text m) []"

definition sessionContext :: "pinecone_match list \<Rightarrow> jsstring" where
  "sessionContext sessionMatches = join (utf16 ''\<newline>'') (map session_line sessionMatches)"

definition corpus_line :: "nat \<times> pinecone_match \<Rightarrow> jsstring" where
  "corpus_line im =
     (case im of (idx, m) \<Rightarrow>
        utf16 ''[Source '' @ show_nat (idx + 1) @ utf16 '']: ''
          @ or_else (metadata_summary m) (utf16 ''No summary available''))"

text \<open>\<open>corpusMatches.map((match, idx) => ...)\<close>: every match with its position.\<close>

definition corpus_lines :: "pinecone_match list \<Rightarrow> jsstring list" where
  "corpus_lines corpusMatches = map corpus_line (zip [0..<length corpusMatches] corpusMatches)"

definition corpusContext :: "pinecone_match list \<Rightarrow> jsstring" where
  "corpusContext corpusMatches = join (utf16 ''\<newline>\<newline>'') (corpus_lines corpusMatches)"

definition history_line :: "hist_message \<Rightarrow> jsstring" where
  "history_line msg =
     (if h_role msg = utf16 ''user'' then utf16 ''User'' else utf16 ''AI'')
       @ utf16 '': '' @ h_content msg"

definition history_lines :: "hist_message list \<Rightarrow> jsstring list" where
  "history_lines hist = map history_line (slice_last 6 hist)"

definition conversationSummary :: "hist_message list \<Rightarrow> jsstring" where
  "conversationSummary hist = join (utf16 ''\<newline>'') (history_lines hist)"

text \<open>The system prompt, piece by piece in the order of the template: the opening, the
  three rules that carry the number of sources, the rules that do not, the three contexts
  under their headings, and the configuration of the session.\<close>

definition prompt_opening :: jsstring where
  "prompt_opening =
     utf16 ''You are an expert debater engaged in an ongoing debate.\<newline>\<newline>''
     @ utf16 ''CRITICAL RULES:\<newline>''"

definition have_access_rule :: "nat \<Rightarrow> jsstring" where
  "have_access_rule n = utf16 ''- You have access to '' @ show_nat n @ utf16 '' sources\<newline>''"

definition only_cite_rule :: "nat \<Rightarrow> jsstring" where
  "only_cite_rule n =
     utf16 ''- ONLY cite sources that exist: [Source 1] through [Source '' @ show_nat n
     @ utf16 '']\<newline>''"

definition never_rule :: "nat \<Rightarrow> jsstring" where
  "never_rule n =
     utf16 ''- NEVER reference source numbers higher than '' @ show_nat n @ utf16 ''\<newline>''"

definition fixed_rules :: jsstring where
  "fixed_rules =
     utf16 ''- Use the retrieved context and conversation history, citing sources as [Source N] when using them\<newline>''
     @ utf16 ''- If the retrieved sources are insufficient or don't provide accurate information, you may use your general knowledge\<newline>''
     @ utf16 ''- Always cite sources when using information from them: e.g., \"Research indicates [Source 2] that...\" or \"[Source 5] demonstrates...\"\<newline>''
     @ utf16 ''- When using general knowledge (not from sources), do not cite a source number\<newline>''
     @ utf16 ''- Address the user's latest point directly\<newline>''
     @ utf16 ''- Build on previous arguments when relevant\<newline>''
     @ utf16 ''- CRITICAL: Your response MUST be between 100-150 words. Count your words carefully.\<newline>''"

definition corpus_heading :: "nat \<Rightarrow> jsstring" where
  "corpus_heading n =
     utf16 ''\<newline>Retrieved Corpus Context (all '' @ show_nat n @ utf16 '' sources):\<newline>''"

definition session_heading :: jsstring where
  "session_heading = utf16 ''\<newline>\<newline>Recent Session Context:\<newline>''"

definition conversation_heading :: jsstring where
  "conversation_heading = utf16 ''\<newline>\<newline>Recent Conversation:\<newline>''"

definition session_settings :: "continue_request \<Rightarrow> jsstring" where
  "session_settings req =
     utf16 ''\<newline>\<newline>Debate Topic: '' @ category req
     @ utf16 ''\<newline>User Experience: '' @ debate_experience req
     @ utf16 ''\<newline>AI Difficulty: '' @ ai_level req"

definition systemPrompt :: "continue_request \<Rightarrow> pinecone_match list \<Rightarrow> pinecone_match list \<Rightarrow> jsstring" where
  "systemPrompt req corpusMatches sessionMatches =
     prompt_opening
     @ have_access_rule (length corpusMatches)
     @ only_cite_rule (length corpusMatches)
     @ never_rule (length corpusMatches)
     @ fixed_rules
     @ corpus_heading (length corpusMatches)
     @ corpusContext corpusMatches
     @ session_heading
     @ sessionContext sessionMatches
     @ conversation_heading
     @ conversationSummary (conversation_history req)
     @ session_settings req"

definition userPrompt :: "continue_request \<Rightarrow> jsstring" where
  "userPrompt req =
     utf16 ''User's latest argument: \"'' @ user_reply req @ utf16 ''\"\<newline>\<newline>''
     @ utf16 ''Provide a counterargument addressing their points in 100-150 words. Cite sources inline when using them.''"

definition prompt :: "continue_request \<Rightarrow> pinecone_match list \<Rightarrow> pinecone_match list \<Rightarrow> jsstring" where
  "prompt req corpusMatches sessionMatches =
     systemPrompt req corpusMatches sessionMatches @ utf16 ''\<newline>\<newline>'' @ userPrompt req"

subsection \<open>Forwarding the generation stream\<close>

definition chunk_text :: "gemini_chunk \<Rightarrow> jsstring option" where
  "chunk_text parsed =
     (case candidates parsed of
        None \<Rightarrow> None
      | Some [] \<Rightarrow> None
      | Some (c # _) \<Rightarrow>
          (case cand_content c of
             None \<Rightarrow> None
           | Some ct \<Rightarrow>
               (case parts ct of
                  None \<Rightarrow> None
                | Some [] \<Rightarrow> None
                | Some (p # _) \<Rightarrow> part_text p)))"

text \<open>The variable \<open>fullAnswer\<close> and the events enqueued so far.\<close>

record forwarder =
  fullAnswer :: jsstring
  enqueued :: "sse_event list"

text \<open>One line of an upstream chunk. \<open>parse\<close> is \<open>JSON.parse\<close> read at the type above;
  \<open>None\<close> when it throws (also for \<open>null\<close>, whose \<open>candidates\<close> cannot be read).\<close>

definition forward_line :: "(jsstring \<Rightarrow> gemini_chunk option) \<Rightarrow> forwarder \<Rightarrow> jsstring \<Rightarrow> forwarder" where
  "forward_line parse f line =
     (if starts_with (utf16 ''data: '') line then
        (let data = drop 6 line
         in if data = utf16 ''[DONE]'' then f
            else (case parse data of
                    None \<Rightarrow> f
                  | Some parsed \<Rightarrow>
                      (case chunk_text parsed of
                         None \<Rightarrow> f
                       | Some text \<Rightarrow>
                           if text = [] then f
                           else f\<lparr>fullAnswer := fullAnswer f @ text,
                                  enqueued := enqueued f @ [TextEvent text (fullAnswer f @ text)]\<rparr>)))
      else f)"

definition forward_chunk :: "(jsstring \<Rightarrow> gemini_chunk option) \<Rightarrow> forwarder \<Rightarrow> jsstring \<Rightarrow> forwarder" where
  "forward_chunk parse f chunk = foldl (forward_line parse) f (split_on 0xA chunk)"

definition forward_all :: "(jsstring \<Rightarrow> gemini_chunk option) \<Rightarrow> jsstring list \<Rightarrow> forwarder" where
  "forward_all parse chunks =
     foldl (forward_chunk parse) \<lparr>fullAnswer = [], enqueued = []\<rparr> chunks"

definition retrieved_source :: "nat \<times> pinecone_match \<Rightarrow> source" where
  "retrieved_source im =
     (case im of (idx, m) \<Rightarrow>
        \<lparr>source_id = match_id m,
         source_number = idx + 1,
         title = or_else (metadata_title m) (utf16 ''Source '' @ show_nat (idx + 1)),
         summary = or_else (metadata_summary m) (utf16 ''No summary available'')\<rparr>)"

definition retrieved_sources :: "pinecone_match list \<Rightarrow> source list" where
  "retrieved_sources corpusMatches =
     map retrieved_source (zip [0..<length corpusMatches] corpusMatches)"

subsection \<open>Session memory\<close>

definition turn_id :: "jsstring \<Rightarrow> nat \<Rightarrow> jsstring" where
  "turn_id sid idx = sid @ utf16 ''::turn::'' @ show_nat idx"

definition user_upsert :: "continue_request \<Rightarrow> 'v \<Rightarrow> jsstring \<Rightarrow> 'v upsert" where
  "user_upsert req embedding now =
     \<lparr>up_id = turn_id (session_id req) (turn_index req),
      up_values = embedding,
      up_role = utf16 ''user'',
      up_text = user_reply req,
      up_turn_index = turn_index req,
      up_timestamp = now,
      up_extra = [],
      up_namespace = session_id req\<rparr>"

definition ai_upsert :: "continue_request \<Rightarrow> jsstring \<Rightarrow> 'v \<Rightarrow> jsstring \<Rightarrow> 'v upsert" where
  "ai_upsert req answer aiEmbedding now =
     \<lparr>up_id = turn_id (session_id req) (turn_index req + 1),
      up_values = aiEmbedding,
      up_role = utf16 ''assistant'',
      up_text = answer,
      up_turn_index = turn_index req + 1,
      up_timestamp = now,
      up_extra = [],
      up_namespace = session_id req\<rparr>"

subsection \<open>The request handler\<close>

text \<open>
  The body of the stream's \<open>start\<close>: forward the chunks; at the end of the upstream put
  the final event, send the user turn's upsert, embed the answer, send the assistant
  turn's upsert, close. A failed read, or a failure of the embedding call for the answer,
  ends in \<open>controller.error\<close>. The result is the stream with its end, and the calls made.
\<close>

definition stream_start ::
    "(jsstring \<Rightarrow> gemini_chunk option) \<Rightarrow> continue_request \<Rightarrow> 'v continue_env \<Rightarrow> 'v
      \<Rightarrow> pinecone_match list \<Rightarrow> (jsstring list \<times> stream_end) option
      \<Rightarrow> http_result \<times> 'v call list" where
  "stream_start parse req env embedding corpusMatches body =
     (case body of
        None \<Rightarrow> (EventStream [] Closed, [])
      | Some (chunks, ending) \<Rightarrow>
          (let f = forward_all parse chunks
           in case ending of
                Errored \<Rightarrow> (EventStream (enqueued f) Errored, [])
              | Closed \<Rightarrow>
                  (let events = enqueued f
                         @ [DoneEvent (fullAnswer f) (retrieved_sources corpusMatches) (turn_index req + 1)];
                       answer = fullAnswer f;
                       calls = [UpsertCall (user_upsert req embedding (user_timestamp env)),
                                EmbedCall answer]
                   in case ai_embedding_response env of
                        Responded ok (Body aiEmbedding) \<Rightarrow>
                          (EventStream events Closed,
                           calls @ [UpsertCall (ai_upsert req answer aiEmbedding (ai_timestamp env))])
                      | Responded ok Unreadable \<Rightarrow> (EventStream events Errored, calls)
                      | Rejected \<Rightarrow> (EventStream events Errored, calls))))"

text \<open>
  The two queries of step 2, both sent before either is awaited: the corpus with
  \<open>topK\<close> 7 in the global namespace, the session with \<open>topK\<close> 3 in the namespace of the
  session.
\<close>

definition dual_queries :: "continue_request \<Rightarrow> 'v \<Rightarrow> 'v call list" where
  "dual_queries req embedding =
     [QueryCall embedding 7 [], QueryCall embedding 3 (session_id req)]"

text \<open>
  The awaiting of both (\<open>Promise.all\<close>), the check of the two \<open>ok\<close> flags and the reading
  of the matches (\<open>data.matches || []\<close>): the corpus matches and the session matches, or
  the failure of the step.
\<close>

definition matches_or_empty :: "pinecone_match list option \<Rightarrow> pinecone_match list" where
  "matches_or_empty ms = (case ms of None \<Rightarrow> [] | Some xs \<Rightarrow> xs)"

definition dual_retrieve ::
    "pinecone_match list option json_body fetched \<Rightarrow> pinecone_match list option json_body fetched
      \<Rightarrow> failure + (pinecone_match list \<times> pinecone_match list)" where
  "dual_retrieve corpusResponse sessionResponse =
     (case corpusResponse of
        Rejected \<Rightarrow> Inl PineconeQueryFailed
      | Responded corpusOk corpusBody \<Rightarrow>
          (case sessionResponse of
             Rejected \<Rightarrow> Inl PineconeQueryFailed
           | Responded sessionOk sessionBody \<Rightarrow>
               if corpusOk \<and> sessionOk then
                 (case corpusBody of
                    Unreadable \<Rightarrow> Inl PineconeQueryFailed
                  | Body corpusData \<Rightarrow>
                      (case sessionBody of
                         Unreadable \<Rightarrow> Inl PineconeQueryFailed
                       | Body sessionData \<Rightarrow>
                           Inr (matches_or_empty corpusData, matches_or_empty sessionData)))
               else Inl PineconeQueryFailed))"

definition debate_continue ::
    "(jsstring \<Rightarrow> gemini_chunk option) \<Rightarrow> continue_request \<Rightarrow> 'v continue_env
      \<Rightarrow> http_result \<times> 'v call list" where
  "debate_continue parse req env =
     (if has_keys env then
        (let calls1 = [EmbedCall (user_reply req)]
         in case embedding_response env of
              Rejected \<Rightarrow> (Error500 EmbeddingFailed, calls1)
            | Responded ok embeddingData \<Rightarrow>
                if ok then
                  (case embeddingData of
                     Unreadable \<Rightarrow> (Error500 EmbeddingFailed, calls1)
                   | Body embedding \<Rightarrow>
                       (let calls2 = calls1 @ dual_queries req embedding
                        in case dual_retrieve (corpus_response env) (session_response env) of
                             Inl e \<Rightarrow> (Error500 e, calls2)
                           | Inr (corpusMatches, sessionMatches) \<Rightarrow>
                               (let calls3 = calls2 @ [GenerateCall (prompt req corpusMatches sessionMatches)]
                                in case llm_response env of
                                     Rejected \<Rightarrow> (Error500 GenerationFailed, calls3)
                                   | Responded llmOk body \<Rightarrow>
                                       if llmOk then
                                         (case stream_start parse req env embedding corpusMatches body of
                                            (res, calls4) \<Rightarrow> (res, calls3 @ calls4))
                                       else (Error500 GenerationFailed, calls3))))
                else (Error500 EmbeddingFailed, calls1))
      else (Error500 MissingKeys, []))"


text \<open>A query has failed: its \<open>fetch\<close> was rejected, its status is not ok, or its body
  cannot be read.\<close>

fun query_failed :: "'a json_body fetched \<Rightarrow> bool" where
  "query_failed Rejected = True"
| "query_failed (Responded ok Unreadable) = True"
| "query_failed (Responded ok (Body b)) = (ok = False)"

text \<open>The upserts among the calls, in order.\<close>

fun upserts_of :: "'v call list \<Rightarrow> 'v upsert list" where
  "upserts_of [] = []"
| "upserts_of (UpsertCall u # cs) = u # upserts_of cs"
| "upserts_of (_ # cs) = upserts_of cs"

text \<open>The texts sent to the embedding service, in order.\<close>

fun embedded_texts :: "'v call list \<Rightarrow> jsstring list" where
  "embedded_texts [] = []"
| "embedded_texts (EmbedCall t # cs) = t # embedded_texts cs"
| "embedded_texts (_ # cs) = embedded_texts cs"

text \<open>
  The events of a stream grow one text: a text event carries a non-empty delta and the
  text before it with the delta appended, the final event carries the text as it stands.
\<close>

fun chained :: "jsstring \<Rightarrow> sse_event list \<Rightarrow> bool" where
  "chained prev [] = True"
| "chained prev (TextEvent text full # es) = (text \<noteq> [] \<and> full = prev @ text \<and> chained full es)"
| "chained prev (DoneEvent full srcs idx # es) = (full = prev \<and> chained full es)"

fun event_fullText :: "sse_event \<Rightarrow> jsstring" where
  "event_fullText (TextEvent text full) = full"
| "event_fullText (DoneEvent full srcs idx) = full"

fun event_text :: "sse_event \<Rightarrow> jsstring" where
  "event_text (TextEvent text full) = text"
| "event_text (DoneEvent full srcs idx) = []"


section \<open>The debate-opening endpoint (debate-start) and the setup page\<close>

record start_request =
  st_category :: jsstring
  st_debate_experience :: jsstring
  st_ai_level :: jsstring
  opening_argument :: jsstring
  st_session_id :: "jsstring option"

text \<open>
  What the endpoint gets from outside: the keys, the identifier drawn by
  \<open>crypto.randomUUID()\<close>, the responses to its calls (the generation is not streamed here:
  its body is the answer text, absent when the response has not the expected structure),
  the outcomes of the two awaited upserts, and the clock.
\<close>

record 'v start_env =
  st_has_keys :: bool
  random_uuid :: jsstring
  st_embedding_response :: "'v json_body fetched"
  st_pinecone_response :: "pinecone_match list option json_body fetched"
  st_llm_response :: "jsstring option json_body fetched"
  st_user_upsert_response :: "unit fetched"
  st_ai_embedding_response :: "'v json_body fetched"
  st_ai_upsert_response :: "unit fetched"
  st_user_timestamp :: jsstring
  st_ai_timestamp :: jsstring

record start_response =
  sr_answer :: jsstring
  sr_retrieved :: "source list"
  sr_session_id :: jsstring
  sr_turn_index :: nat

datatype start_result = StartError failure | StartOk start_response

text \<open>The two upserts and the response, once the answer is there (steps 6 to 8).\<close>

definition start_store ::
    "start_request \<Rightarrow> 'v start_env \<Rightarrow> jsstring \<Rightarrow> nat \<Rightarrow> 'v \<Rightarrow> pinecone_match list \<Rightarrow> jsstring
      \<Rightarrow> start_result \<times> 'v upsert list" where
  "start_store req env currentSessionId startTurnIndex embedding matches answer =
     (let userTurn =
            \<lparr>up_id = turn_id currentSessionId startTurnIndex,
             up_values = embedding,
             up_role = utf16 ''user'',
             up_text = opening_argument req,
             up_turn_index = startTurnIndex,
             up_timestamp = st_user_timestamp env,
             up_extra = [(utf16 ''category'', st_category req),
                         (utf16 ''debate_experience'', st_debate_experience req),
                         (utf16 ''ai_level'', st_ai_level req)],
             up_namespace = currentSessionId\<rparr>
      in case st_user_upsert_response env of
           Rejected \<Rightarrow> (StartError UpsertFailed, [userTurn])
         | Responded userOk u \<Rightarrow>
             (case st_ai_embedding_response env of
                Rejected \<Rightarrow> (StartError EmbeddingFailed, [userTurn])
              | Responded aiOk Unreadable \<Rightarrow> (StartError EmbeddingFailed, [userTurn])
              | Responded aiOk (Body aiEmbedding) \<Rightarrow>
                  (let aiTurn =
                         \<lparr>up_id = turn_id currentSessionId (startTurnIndex + 1),
                          up_values = aiEmbedding,
                          up_role = utf16 ''assistant'',
                          up_text = answer,
                          up_turn_index = startTurnIndex + 1,
                          up_timestamp = st_ai_timestamp env,
                          up_extra = [],
                          up_namespace = currentSessionId\<rparr>
                   in case st_ai_upsert_response env of
                        Rejected \<Rightarrow> (StartError UpsertFailed, [userTurn, aiTurn])
                      | Responded upOk u' \<Rightarrow>
                          (StartOk \<lparr>sr_answer = answer,
                                    sr_retrieved = retrieved_sources matches,
                                    sr_session_id = currentSessionId,
                                    sr_turn_index = startTurnIndex + 1\<rparr>,
                           [userTurn, aiTurn]))))"

text \<open>The handler, with the upserts it has sent. The assembly of its prompt is left out:
  the answer comes from the generation response.\<close>

definition debate_start :: "start_request \<Rightarrow> 'v start_env \<Rightarrow> start_result \<times> 'v upsert list" where
  "debate_start req env =
     (if st_has_keys env then
        (let currentSessionId = or_else (st_session_id req) (random_uuid env);
             startTurnIndex = 0
         in case st_embedding_response env of
              Rejected \<Rightarrow> (StartError EmbeddingFailed, [])
            | Responded ok embeddingData \<Rightarrow>
                if ok then
                  (case embeddingData of
                     Unreadable \<Rightarrow> (StartError EmbeddingFailed, [])
                   | Body embedding \<Rightarrow>
                       (case st_pinecone_response env of
                          Rejected \<Rightarrow> (StartError PineconeQueryFailed, [])
                        | Responded pineconeOk pineconeData \<Rightarrow>
                            if pineconeOk then
                              (case pineconeData of
                                 Unreadable \<Rightarrow> (StartError PineconeQueryFailed, [])
                               | Body data \<Rightarrow>
                                   (case st_llm_response env of
                                      Rejected \<Rightarrow> (StartError GenerationFailed, [])
                                    | Responded llmOk llmData \<Rightarrow>
                                        if llmOk then
                                          (case llmData of
                                             Unreadable \<Rightarrow> (StartError GenerationFailed, [])
                                           | Body None \<Rightarrow> (StartError GenerationFailed, [])
                                           | Body (Some answer) \<Rightarrow>
                                               if answer = [] then (StartError GenerationFailed, [])
                                               else start_store req env currentSessionId startTurnIndex
                                                      embedding (matches_or_empty data) answer)
                                        else (StartError GenerationFailed, [])))
                            else (StartError PineconeQueryFailed, [])))
                else (StartError EmbeddingFailed, []))
      else (StartError MissingKeys, []))"

text \<open>The setup page, on a successful start: it navigates to the debate page with the
  two opening messages, the sources and the turn index of the response.\<close>

definition enter_debate :: "jsstring \<Rightarrow> start_response \<Rightarrow> debate" where
  "enter_debate openingArgument data =
     debate_page_init
       [Some \<lparr>role = User, content = Str openingArgument\<rparr>,
        Some \<lparr>role = Assistant, content = Str (sr_answer data)\<rparr>]
       [\<lparr>sg_turnIndex = sr_turn_index data, sg_sources = sr_retrieved data\<rparr>]
       (Some (sr_turn_index data))"

text \<open>The constants of the debate page, and the body of the request that
  \<open>handleSendMessage\<close> posts.\<close>

record page_constants =
  sessionId :: jsstring
  pageCategory :: jsstring
  debateExperience :: jsstring
  aiLevel :: jsstring

record request_body =
  rb_session_id :: jsstring
  rb_user_reply :: jsstring
  rb_turn_index :: nat
  rb_category :: jsstring
  rb_debate_experience :: jsstring
  rb_ai_level :: jsstring
  rb_conversation_history :: "message option list"

definition post_body :: "page_constants \<Rightarrow> debate \<Rightarrow> request_body" where
  "post_body c d =
     \<lparr>rb_session_id = sessionId c,
      rb_user_reply = userInput d,
      rb_turn_index = turnIndex d,
      rb_category = pageCategory c,
      rb_debate_experience = debateExperience c,
      rb_ai_level = aiLevel c,
      rb_conversation_history = conversation d\<rparr>"



text \<open>
  The generation step has failed for the endpoint: the request is rejected, its status is
  not ok, or a read of its stream fails. (An ok response without a body is not a failure
  for the endpoint: it closes its own stream at once, empty.)
\<close>

fun generation_failed :: "(jsstring list \<times> stream_end) option fetched \<Rightarrow> bool" where
  "generation_failed Rejected = True"
| "generation_failed (Responded ok None) = (ok = False)"
| "generation_failed (Responded ok (Some (chunks, Closed))) = (ok = False)"
| "generation_failed (Responded ok (Some (chunks, Errored))) = True"

text \<open>
  What the page's \<open>fetch\<close> gets for a result of the endpoint: for status 500 a response
  that is not ok; for a stream the chunks that its reads deliver (\<open>chunks\<close>: some cutting of
  the bytes the endpoint has put on the stream), ending as the stream ends.
\<close>

fun page_sees :: "jsstring list \<Rightarrow> http_result \<Rightarrow> client_fetch" where
  "page_sees chunks (Error500 f) = HttpError"
| "page_sees chunks (EventStream evs ending) = Streaming chunks ending"


text \<open>The responses with which a turn fails on the page.\<close>

fun failed_response :: "client_fetch \<Rightarrow> bool" where
  "failed_response FetchRejected = True"
| "failed_response HttpError = True"
| "failed_response NoStream = True"
| "failed_response (Streaming chunks Errored) = True"
| "failed_response (Streaming chunks Closed) = False"



section \<open>A worked session\<close>

text \<open>
  The inputs of the examples below: a debate is opened, then continued once, every call
  succeeding. Embedding vectors are named by numbers. The generation stream of the
  continuation has three lines, the second cut short; \<open>example_parse\<close> is \<open>JSON.parse\<close> on
  the payloads of this stream.
\<close>

definition example_start_request :: start_request where
  "example_start_request =
     \<lparr>st_category = utf16 ''politics'',
      st_debate_experience = utf16 ''Intermediate'',
      st_ai_level = utf16 ''Competitive'',
      opening_argument = utf16 ''Universal healthcare is necessary for a just society.'',
      st_session_id = None\<rparr>"

definition example_start_env :: "nat start_env" where
  "example_start_env =
     \<lparr>st_has_keys = True,
      random_uuid = utf16 ''s1'',
      st_embedding_response = Responded True (Body 100),
      st_pinecone_response = Responded True (Body (Some [])),
      st_llm_response = Responded True (Body (Some (utf16 ''It is costly.''))),
      st_user_upsert_response = Responded True (),
      st_ai_embedding_response = Responded True (Body 101),
      st_ai_upsert_response = Responded True (),
      st_user_timestamp = utf16 ''t0'',
      st_ai_timestamp = utf16 ''t1''\<rparr>"

definition example_constants :: page_constants where
  "example_constants =
     \<lparr>sessionId = utf16 ''s1'',
      pageCategory = utf16 ''politics'',
      debateExperience = utf16 ''Intermediate'',
      aiLevel = utf16 ''Competitive''\<rparr>"

definition example_page :: debate where
  "example_page =
     (enter_debate (utf16 ''Universal healthcare is necessary for a just society.'')
        \<lparr>sr_answer = utf16 ''It is costly.'', sr_retrieved = [],
         sr_session_id = utf16 ''s1'', sr_turn_index = 1\<rparr>)
     \<lparr>userInput := utf16 ''Costs fall over time.''\<rparr>"

definition example_match :: pinecone_match where
  "example_match =
     \<lparr>match_id = utf16 ''doc-7'',
      match_metadata = Some \<lparr>md_text = None,
                              md_summary = Some (utf16 ''Spending doubled.''),
                              md_title = Some (utf16 ''A study'')\<rparr>\<rparr>"

definition example_history :: "hist_message list" where
  "example_history =
     [\<lparr>h_role = utf16 ''user'', h_content = utf16 ''Universal healthcare is necessary for a just society.''\<rparr>,
      \<lparr>h_role = utf16 ''assistant'', h_content = utf16 ''It is costly.''\<rparr>]"

definition example_request :: continue_request where
  "example_request =
     \<lparr>session_id = utf16 ''s1'',
      user_reply = utf16 ''Costs fall over time.'',
      turn_index = 1,
      category = utf16 ''politics'',
      debate_experience = utf16 ''Intermediate'',
      ai_level = utf16 ''Competitive'',
      conversation_history = example_history\<rparr>"

definition gemini_json :: "jsstring \<Rightarrow> jsstring" where
  "gemini_json text =
     utf16 ''{\"candidates\":[{\"content\":{\"parts\":[{\"text\":\"'' @ text @ utf16 ''\"}]}}]}''"

definition text_chunk :: "jsstring \<Rightarrow> gemini_chunk" where
  "text_chunk text =
     \<lparr>candidates = Some [\<lparr>cand_content = Some \<lparr>parts = Some [\<lparr>part_text = Some text\<rparr>]\<rparr>\<rparr>]\<rparr>"

definition example_parse :: "jsstring \<Rightarrow> gemini_chunk option" where
  "example_parse data =
     (if data = gemini_json (utf16 ''No.'') then Some (text_chunk (utf16 ''No.''))
      else if data = gemini_json (utf16 '' Costs rise.'') then Some (text_chunk (utf16 '' Costs rise.''))
      else None)"


definition example_stream :: "jsstring list" where
  "example_stream =
     [utf16 ''data: '' @ gemini_json (utf16 ''No.'') @ utf16 ''\<newline>\<newline>'',
      utf16 ''data: {\"candidates\":[{\"con\<newline>\<newline>'',
      utf16 ''data: '' @ gemini_json (utf16 '' Costs rise.'') @ utf16 ''\<newline>\<newline>'']"

definition example_env :: "nat continue_env" where
  "example_env =
     \<lparr>has_keys = True,
      embedding_response = Responded True (Body 102),
      corpus_response = Responded True (Body (Some [example_match])),
      session_response = Responded True (Body None),
      llm_response = Responded True (Some (example_stream, Closed)),
      ai_embedding_response = Responded True (Body 103),
      user_timestamp = utf16 ''t2'',
      ai_timestamp = utf16 ''t3''\<rparr>"


section \<open>The sentence segmenter\<close>

lemma nonws_dropWhile:
  "filter (\<lambda>c. \<not> is_whitespace c) (dropWhile is_whitespace xs) = filter (\<lambda>c. \<not> is_whitespace c) xs"
  by (induction xs) auto

lemma nonws_trim:
  "filter (\<lambda>c. \<not> is_whitespace c) (trim s) = filter (\<lambda>c. \<not> is_whitespace c) s"
proof -
  have "filter (\<lambda>c. \<not> is_whitespace c) (trim s) =
        rev (filter (\<lambda>c. \<not> is_whitespace c) (dropWhile is_whitespace (rev (dropWhile is_whitespace s))))"
    by (simp add: trim_def rev_filter)
  also have "\<dots> = filter (\<lambda>c. \<not> is_whitespace c) s"
    by (simp add: nonws_dropWhile rev_filter)
  finally show ?thesis .
qed

lemma nonws_concat_trim:
  "filter (\<lambda>c. \<not> is_whitespace c) (concat (filter (\<lambda>s. s \<noteq> []) (map trim xs)))
     = filter (\<lambda>c. \<not> is_whitespace c) (concat xs)"
proof (induction xs)
  case Nil
  show ?case by simp
next
  case (Cons a xs)
  have "trim a = [] \<Longrightarrow> filter (\<lambda>c. \<not> is_whitespace c) a = []"
    using nonws_trim[of a] by simp
  with Cons show ?case by (auto simp: nonws_trim)
qed

text \<open>One update keeps the books: the segments cut so far and the buffer make up the
  text received, and the sentences spoken are the trimmed segments.\<close>

lemma on_full_text_segments:
  assumes "fullText d = Str prev"
    and "concat segs @ sentenceBuffer d = prev"
    and "ttsCalls d = base @ filter (\<lambda>s. s \<noteq> []) (map trim segs)"
    and "take (length prev) u = prev"
  shows "\<exists>segs'. concat segs' @ sentenceBuffer (on_full_text i (Str u) d) = u
           \<and> ttsCalls (on_full_text i (Str u) d) = base @ filter (\<lambda>s. s \<noteq> []) (map trim segs')
           \<and> fullText (on_full_text i (Str u) d) = Str u"
proof -
  define buf where "buf = sentenceBuffer d @ drop (length prev) u"
  have sl: "string_slice u (js_length (fullText d)) = drop (length prev) u"
    using assms(1) by simp
  have u: "u = prev @ drop (length prev) u"
    using assms(4) by (metis append_take_drop_id)
  have cb: "concat segs @ buf = u"
    using assms(2) u unfolding buf_def by (metis append.assoc)
  show ?thesis
  proof (cases "sentence_match buf")
    case None
    then have "concat segs @ sentenceBuffer (on_full_text i (Str u) d) = u
           \<and> ttsCalls (on_full_text i (Str u) d) = base @ filter (\<lambda>s. s \<noteq> []) (map trim segs)
           \<and> fullText (on_full_text i (Str u) d) = Str u"
      using cb assms(3) by (simp add: on_full_text_def Let_def sl buf_def[symmetric])
    then show ?thesis by blast
  next
    case (Some n)
    have "concat (segs @ [take n buf]) @ drop n buf = u" using cb by simp
    then have "concat (segs @ [take n buf]) @ sentenceBuffer (on_full_text i (Str u) d) = u
           \<and> ttsCalls (on_full_text i (Str u) d) = base @ filter (\<lambda>s. s \<noteq> []) (map trim (segs @ [take n buf]))
           \<and> fullText (on_full_text i (Str u) d) = Str u"
      using Some assms(3) by (simp add: on_full_text_def Let_def sl buf_def[symmetric])
    then show ?thesis by blast
  qed
qed

lemma feed_updates_segments:
  "fullText d = Str prev \<Longrightarrow>
   concat segs @ sentenceBuffer d = prev \<Longrightarrow>
   ttsCalls d = base @ filter (\<lambda>s. s \<noteq> []) (map trim segs) \<Longrightarrow>
   growing prev us \<Longrightarrow>
   \<exists>segs'. concat segs' @ sentenceBuffer (feed_updates i us d) = last (prev # us)
         \<and> ttsCalls (feed_updates i us d) = base @ filter (\<lambda>s. s \<noteq> []) (map trim segs')
         \<and> fullText (feed_updates i us d) = Str (last (prev # us))"
proof (induction us arbitrary: d segs prev)
  case Nil
  then show ?case by (auto simp: feed_updates_def)
next
  case (Cons u us)
  let ?d = "on_full_text i (Str u) d"
  have p: "take (length prev) u = prev" and g: "growing u us" using Cons.prems(4) by auto
  from on_full_text_segments[OF Cons.prems(1) Cons.prems(2) Cons.prems(3) p, of i]
  obtain segs1 where s1: "concat segs1 @ sentenceBuffer ?d = u"
      "ttsCalls ?d = base @ filter (\<lambda>s. s \<noteq> []) (map trim segs1)" "fullText ?d = Str u"
    by auto
  from Cons.IH[OF s1(3) s1(1) s1(2) g] show ?case by (simp add: feed_updates_def)
qed

text \<open>
  Claim C1, as amended. The sentences are trimmed before they are spoken, so their
  concatenation is not the answer itself. What holds, for updates that each extend the
  one before: the answer is cut into consecutive segments (their concatenation is exactly
  the last full text), the sentences given to \<open>playTTS\<close>, the final flush included, are
  these segments with the white space at both ends removed, in order, a segment of white
  space only being dropped; so the sentences, read without white space, are the answer
  read without white space.
\<close>

theorem segmenter_text_up_to_trim:
  assumes "growing [] us" and "fullText d = Str []" and "sentenceBuffer d = []"
  shows "\<exists>segs. concat segs = last ([] # us) \<and>
           ttsCalls (flush_buffer (feed_updates i us d)) =
             ttsCalls d @ filter (\<lambda>s. s \<noteq> []) (map trim segs) \<and>
           filter (\<lambda>c. \<not> is_whitespace c)
               (concat (drop (length (ttsCalls d)) (ttsCalls (flush_buffer (feed_updates i us d))))) =
             filter (\<lambda>c. \<not> is_whitespace c) (last ([] # us))"
proof -
  define d' where "d' = feed_updates i us d"
  have "concat [] @ sentenceBuffer d = []" using assms by simp
  moreover have "ttsCalls d = ttsCalls d @ filter (\<lambda>s. s \<noteq> []) (map trim [])" by simp
  ultimately obtain segs where s: "concat segs @ sentenceBuffer d' = last ([] # us)"
      "ttsCalls d' = ttsCalls d @ filter (\<lambda>s. s \<noteq> []) (map trim segs)"
    using feed_updates_segments[OF assms(2) _ _ assms(1), of "[]" "ttsCalls d" i]
    unfolding d'_def by auto
  let ?segs = "segs @ [sentenceBuffer d']"
  have c: "concat ?segs = last ([] # us)" using s by simp
  have t: "ttsCalls (flush_buffer d') = ttsCalls d @ filter (\<lambda>s. s \<noteq> []) (map trim ?segs)"
    using s(2) by (simp add: flush_buffer_def)
  have dr: "drop (length (ttsCalls d)) (ttsCalls (flush_buffer d')) = filter (\<lambda>s. s \<noteq> []) (map trim ?segs)"
    by (simp only: t append_eq_conv_conj) simp
  have "filter (\<lambda>c. \<not> is_whitespace c) (concat (drop (length (ttsCalls d)) (ttsCalls (flush_buffer d'))))
        = filter (\<lambda>c. \<not> is_whitespace c) (concat ?segs)"
    by (simp only: dr nonws_concat_trim)
  then have "filter (\<lambda>c. \<not> is_whitespace c) (concat (drop (length (ttsCalls d)) (ttsCalls (flush_buffer d'))))
        = filter (\<lambda>c. \<not> is_whitespace c) (last ([] # us))"
    by (simp only: c)
  with c t show ?thesis unfolding d'_def by blast
qed

theorem segmenter_text_up_to_trim_witness:
  "growing [] [utf16 ''The claim is false.'',
               utf16 ''The claim is false. Evidence [Source 1] shows otherwise.'']
   \<and> fullText (debate_page_init [] [] None) = Str []
   \<and> sentenceBuffer (debate_page_init [] [] None) = []
   \<and> (\<exists>segs. concat segs
               = last ([] # [utf16 ''The claim is false.'',
                             utf16 ''The claim is false. Evidence [Source 1] shows otherwise.''])
         \<and> ttsCalls (flush_buffer (feed_updates 1
               [utf16 ''The claim is false.'',
                utf16 ''The claim is false. Evidence [Source 1] shows otherwise.'']
               (debate_page_init [] [] None)))
             = ttsCalls (debate_page_init [] [] None) @ filter (\<lambda>s. s \<noteq> []) (map trim segs)
         \<and> filter (\<lambda>c. \<not> is_whitespace c)
               (concat (drop (length (ttsCalls (debate_page_init [] [] None)))
                  (ttsCalls (flush_buffer (feed_updates 1
                     [utf16 ''The claim is false.'',
                      utf16 ''The claim is false. Evidence [Source 1] shows otherwise.'']
                     (debate_page_init [] [] None))))))
             = filter (\<lambda>c. \<not> is_whitespace c)
                 (last ([] # [utf16 ''The claim is false.'',
                              utf16 ''The claim is false. Evidence [Source 1] shows otherwise.''])))"
proof -
  have g: "growing [] [utf16 ''The claim is false.'',
               utf16 ''The claim is false. Evidence [Source 1] shows otherwise.'']"
    by (simp add: utf16_def)
  have f: "fullText (debate_page_init [] [] None) = Str []"
    and b: "sentenceBuffer (debate_page_init [] [] None) = []"
    by (simp_all add: debate_page_init_def)
  from segmenter_text_up_to_trim[OF g f b, of 1] g f b show ?thesis by blast
qed

text \<open>
  The claim C1 as it stands fails on the two updates of the specification's own scenario:
  the sentences spoken are the two sentences without the blank between them, and their
  concatenation is not the answer.
\<close>

theorem segmenter_drops_blank_counterexample:
  "ttsCalls (flush_buffer (feed_updates 1
       [utf16 ''The claim is false.'',
        utf16 ''The claim is false. Evidence [Source 1] shows otherwise.'']
       (debate_page_init [] [] None)))
     = [utf16 ''The claim is false.'', utf16 ''Evidence [Source 1] shows otherwise.'']
   \<and> concat (ttsCalls (flush_buffer (feed_updates 1
       [utf16 ''The claim is false.'',
        utf16 ''The claim is false. Evidence [Source 1] shows otherwise.'']
       (debate_page_init [] [] None))))
     \<noteq> utf16 ''The claim is false. Evidence [Source 1] shows otherwise.''"
  by (simp add: feed_updates_def on_full_text_def flush_buffer_def debate_page_init_def Let_def
      trim_def utf16_def is_whitespace_def is_terminal_punct_def is_line_terminator_def
      array_assign_def)



text \<open>
  A value that is not a string and has no \<open>slice\<close> (the number 5, say) is kept in
  \<open>fullText\<close> although the line is given up, and the next text is then cut from position
  0: here the first sentence is spoken twice.
\<close>

lemma non_string_full_text_is_kept:
  "on_full_text i (NonStr len (\<lambda>start. None)) d = d\<lparr>fullText := NonStr len (\<lambda>start. None)\<rparr>"
  "ttsCalls (flush_buffer
      (on_full_text 1 (Str (utf16 ''One. Two.''))
        (on_full_text 1 (NonStr (At 0) (\<lambda>start. None))
          (on_full_text 1 (Str (utf16 ''One.'')) (debate_page_init [] [] None)))))
     = [utf16 ''One.'', utf16 ''One.'', utf16 ''Two.'']"
  by (simp_all add: on_full_text_def flush_buffer_def debate_page_init_def Let_def
      trim_def utf16_def is_whitespace_def is_terminal_punct_def is_line_terminator_def
      array_assign_def)


section \<open>Rolling back a failed turn\<close>

lemma on_full_text_conversation:
  assumes "i < length (conversation d)"
  shows "length (conversation (on_full_text i w d)) = length (conversation d)
       \<and> take i (conversation (on_full_text i w d)) = take i (conversation d)"
  using assms by (simp add: on_full_text_def Let_def array_assign_def split: option.splits)

lemma process_line_conversation:
  assumes "i < length (conversation d)"
  shows "length (conversation (process_line parse i d line)) = length (conversation d)
       \<and> take i (conversation (process_line parse i d line)) = take i (conversation d)"
  using on_full_text_conversation[OF assms] by (simp add: process_line_def split: option.splits)

lemma process_lines_conversation:
  "i < length (conversation d) \<Longrightarrow>
   length (conversation (foldl (process_line parse i) d ls)) = length (conversation d)
   \<and> take i (conversation (foldl (process_line parse i) d ls)) = take i (conversation d)"
proof (induction ls arbitrary: d)
  case Nil
  show ?case by simp
next
  case (Cons l ls)
  have a: "length (conversation (process_line parse i d l)) = length (conversation d)"
    and b: "take i (conversation (process_line parse i d l)) = take i (conversation d)"
    using process_line_conversation[OF Cons.prems] by auto
  have "i < length (conversation (process_line parse i d l))" using a Cons.prems by simp
  from Cons.IH[OF this] show ?case using a b by simp
qed

lemma process_chunks_conversation:
  "i < length (conversation d) \<Longrightarrow>
   length (conversation (foldl (process_chunk parse i) d cs)) = length (conversation d)
   \<and> take i (conversation (foldl (process_chunk parse i) d cs)) = take i (conversation d)"
proof (induction cs arbitrary: d)
  case Nil
  show ?case by simp
next
  case (Cons c cs)
  have a: "length (conversation (process_chunk parse i d c)) = length (conversation d)"
    and b: "take i (conversation (process_chunk parse i d c)) = take i (conversation d)"
    using process_lines_conversation[OF Cons.prems] by (auto simp: process_chunk_def)
  have "i < length (conversation (process_chunk parse i d c))" using a Cons.prems by simp
  from Cons.IH[OF this] show ?case using a b by simp
qed

text \<open>However far the stream got, removing the last two messages gives back the
  conversation to which the two messages of the turn had been appended.\<close>

lemma rollback_after_stream:
  fixes prev :: "message option list"
  assumes "conversation d = prev @ [a, b]"
  shows "slice_drop_last 2 (conversation (foldl (process_chunk parse (length prev + 1)) d cs)) = prev"
proof -
  let ?d = "foldl (process_chunk parse (length prev + 1)) d cs"
  have i: "length prev + 1 < length (conversation d)" using assms by simp
  have l: "length (conversation ?d) = length prev + 2"
    and t: "take (length prev + 1) (conversation ?d) = take (length prev + 1) (conversation d)"
    using process_chunks_conversation[OF i, of parse cs] assms by auto
  have "take (length prev) (conversation ?d) = take (length prev) (take (length prev + 1) (conversation ?d))"
    by simp
  also have "\<dots> = take (length prev) (conversation d)" unfolding t by simp
  also have "\<dots> = prev" using assms by simp
  finally show ?thesis using l by (simp add: slice_drop_last_def)
qed

text \<open>Whatever fails on the way to the page or while the stream is read, the
  conversation is afterwards what it was before.\<close>

lemma failed_response_restores_conversation:
  assumes "failed_response response"
  shows "conversation (handleSendMessage parse response d) = conversation d"
proof (cases "trim (userInput d) = [] \<or> isLoading d")
  case True
  then show ?thesis by (simp add: handleSendMessage_def)
next
  case False
  show ?thesis
  proof (cases response)
    case (Streaming chunks ending)
    then have e: "ending = Errored" using assms by (cases ending) auto
    show ?thesis using False Streaming e
      by (simp add: handleSendMessage_def Let_def on_error_def
            rollback_after_stream[where prev = "conversation d", simplified])
  qed (use False in \<open>simp_all add: handleSendMessage_def Let_def on_error_def slice_drop_last_def\<close>)
qed

lemma dual_retrieve_failed:
  "query_failed c \<or> query_failed s \<Longrightarrow> dual_retrieve c s = Inl PineconeQueryFailed"
  by (cases c; cases s)
     (auto simp: dual_retrieve_def split: json_body.splits elim: query_failed.elims)

text \<open>A failed step of the endpoint ends the request with status 500, or, when a read
  of the generation stream fails, breaks the stream.\<close>

lemma failed_stage_result:
  assumes "has_keys env = False \<or> query_failed (embedding_response env)
           \<or> query_failed (corpus_response env) \<or> query_failed (session_response env)
           \<or> generation_failed (llm_response env)"
  shows "(\<exists>f. fst (debate_continue parse req env) = Error500 f)
       \<or> (\<exists>evs. fst (debate_continue parse req env) = EventStream evs Errored)"
proof (cases "has_keys env")
  case False
  then show ?thesis by (simp add: debate_continue_def)
next
  case k: True
  show ?thesis
  proof (cases "query_failed (embedding_response env)")
    case True
    then show ?thesis using k
      by (auto simp: debate_continue_def Let_def split: fetched.splits json_body.splits
               elim: query_failed.elims)
  next
    case eok: False
    then obtain e where e: "embedding_response env = Responded True (Body e)"
      by (cases "embedding_response env" rule: query_failed.cases) auto
    show ?thesis
    proof (cases "query_failed (corpus_response env) \<or> query_failed (session_response env)")
      case True
      from dual_retrieve_failed[OF this] show ?thesis using k e
        by (simp add: debate_continue_def Let_def)
    next
      case False
      with assms k eok have g: "generation_failed (llm_response env)" by auto
      from g show ?thesis using k e
        by (cases "llm_response env" rule: generation_failed.cases)
           (auto simp: debate_continue_def stream_start_def Let_def split: sum.splits prod.splits)
    qed
  qed
qed

lemma empty_chunks_change_nothing:
  "concat chunks = [] \<Longrightarrow> foldl (process_chunk parse i) d chunks = d"
proof (induction chunks arbitrary: d)
  case Nil
  show ?case by simp
next
  case (Cons c cs)
  then have c: "c = []" and r: "concat cs = []" by auto
  have "process_chunk parse i d [] = d"
    by (simp add: process_chunk_def process_line_def starts_with_def utf16_def)
  with Cons.IH[OF r] c show ?case by simp
qed

text \<open>
  Claim C5, as amended. When the endpoint finds its keys missing, or its embedding call,
  one of its two retrieval queries or its generation request fails (rejected, not ok, or
  unreadable), the page gets a response that is not ok; when a read of the generation
  stream fails, the page gets a stream that breaks. In each case, and for every other
  response with which a turn fails on the page, the conversation after
  \<open>handleSendMessage\<close> is exactly the conversation before it: the user's message and the
  assistant's placeholder, whatever partial text it had received, are both gone. A
  generation response that is ok but has no body is not taken for a failure: the endpoint
  closes an empty stream, and the page keeps the user's message and the empty
  placeholder.
\<close>

theorem failed_stage_restores_conversation:
  "(has_keys env = False \<or> query_failed (embedding_response env)
      \<or> query_failed (corpus_response env) \<or> query_failed (session_response env)
      \<or> generation_failed (llm_response env) \<longrightarrow>
       failed_response (page_sees chunks (fst (debate_continue parse req env)))
       \<and> conversation (handleSendMessage cparse
            (page_sees chunks (fst (debate_continue parse req env))) d) = conversation d)
   \<and> (failed_response response \<longrightarrow>
        conversation (handleSendMessage cparse response d) = conversation d)
   \<and> (has_keys env \<and> embedding_response env = Responded True (Body e)
        \<and> dual_retrieve (corpus_response env) (session_response env) = Inr (cm, sm)
        \<and> llm_response env = Responded True None
        \<and> concat chunks = [] \<and> trim (userInput d) \<noteq> [] \<and> isLoading d = False \<longrightarrow>
        fst (debate_continue parse req env) = EventStream [] Closed
        \<and> conversation (handleSendMessage cparse
             (page_sees chunks (fst (debate_continue parse req env))) d)
            = conversation d @ [Some \<lparr>role = User, content = Str (userInput d)\<rparr>,
                                Some \<lparr>role = Assistant, content = Str []\<rparr>])"
proof -
  have a: "failed_response (page_sees chunks (fst (debate_continue parse req env)))
       \<and> conversation (handleSendMessage cparse
            (page_sees chunks (fst (debate_continue parse req env))) d) = conversation d"
    if "has_keys env = False \<or> query_failed (embedding_response env)
      \<or> query_failed (corpus_response env) \<or> query_failed (session_response env)
      \<or> generation_failed (llm_response env)"
  proof -
    from failed_stage_result[OF that, of parse req]
    have "failed_response (page_sees chunks (fst (debate_continue parse req env)))" by auto
    then show ?thesis using failed_response_restores_conversation by blast
  qed
  have c: "fst (debate_continue parse req env) = EventStream [] Closed
        \<and> conversation (handleSendMessage cparse
             (page_sees chunks (fst (debate_continue parse req env))) d)
            = conversation d @ [Some \<lparr>role = User, content = Str (userInput d)\<rparr>,
                                Some \<lparr>role = Assistant, content = Str []\<rparr>]"
    if h: "has_keys env \<and> embedding_response env = Responded True (Body e)
        \<and> dual_retrieve (corpus_response env) (session_response env) = Inr (cm, sm)
        \<and> llm_response env = Responded True None
        \<and> concat chunks = [] \<and> trim (userInput d) \<noteq> [] \<and> isLoading d = False"
  proof -
    have r: "fst (debate_continue parse req env) = EventStream [] Closed"
      using h by (simp add: debate_continue_def stream_start_def Let_def)
    have "conversation (handleSendMessage cparse (Streaming chunks Closed) d)
            = conversation d @ [Some \<lparr>role = User, content = Str (userInput d)\<rparr>,
                                Some \<lparr>role = Assistant, content = Str []\<rparr>]"
      using h
      by (simp add: handleSendMessage_def Let_def empty_chunks_change_nothing flush_buffer_def
            apply_metadata_def trim_def)
    with r show ?thesis by simp
  qed
  from a c failed_response_restores_conversation show ?thesis by blast
qed


lemma example_page_active:
  "trim (userInput example_page) \<noteq> []" "isLoading example_page = False"
  "userInput example_page = utf16 ''Costs fall over time.''"
  "conversation example_page
     = [Some \<lparr>role = User,
              content = Str (utf16 ''Universal healthcare is necessary for a just society.'')\<rparr>,
        Some \<lparr>role = Assistant, content = Str (utf16 ''It is costly.'')\<rparr>]"
  by (simp_all add: example_page_def enter_debate_def debate_page_init_def trim_def utf16_def
        is_whitespace_def)

lemma example_retrieve:
  "dual_retrieve (corpus_response example_env) (session_response example_env)
     = Inr ([example_match], [])"
  by (simp add: example_env_def dual_retrieve_def matches_or_empty_def)

theorem failed_stage_restores_conversation_witness:
  "query_failed (session_response (example_env\<lparr>session_response := Responded False Unreadable\<rparr>))
   \<and> fst (debate_continue example_parse example_request
             (example_env\<lparr>session_response := Responded False Unreadable\<rparr>))
       = Error500 PineconeQueryFailed
   \<and> conversation (handleSendMessage (\<lambda>data. None)
        (page_sees []
           (fst (debate_continue example_parse example_request
                   (example_env\<lparr>session_response := Responded False Unreadable\<rparr>))))
        example_page)
       = conversation example_page
   \<and> failed_response (Streaming [utf16 ''data: x\<newline>''] Errored)
   \<and> conversation (handleSendMessage
        (\<lambda>data. Some \<lparr>p_done = False, p_fullText = Str (utf16 ''Because''), p_turn_index = 0,
                       p_retrieved = []\<rparr>)
        (Streaming [utf16 ''data: x\<newline>''] Errored) example_page)
       = conversation example_page
   \<and> has_keys (example_env\<lparr>llm_response := Responded True None\<rparr>)
   \<and> embedding_response (example_env\<lparr>llm_response := Responded True None\<rparr>)
       = Responded True (Body 102)
   \<and> dual_retrieve (corpus_response (example_env\<lparr>llm_response := Responded True None\<rparr>))
        (session_response (example_env\<lparr>llm_response := Responded True None\<rparr>))
       = Inr ([example_match], [])
   \<and> llm_response (example_env\<lparr>llm_response := Responded True None\<rparr>) = Responded True None
   \<and> concat ([] :: jsstring list) = []
   \<and> trim (userInput example_page) \<noteq> []
   \<and> isLoading example_page = False
   \<and> conversation (handleSendMessage (\<lambda>data. None)
        (page_sees []
           (fst (debate_continue example_parse example_request
                   (example_env\<lparr>llm_response := Responded True None\<rparr>))))
        example_page)
       = conversation example_page
           @ [Some \<lparr>role = User, content = Str (userInput example_page)\<rparr>,
              Some \<lparr>role = Assistant, content = Str []\<rparr>]"
proof -
  let ?env1 = "example_env\<lparr>session_response := Responded False Unreadable\<rparr>"
  let ?env3 = "example_env\<lparr>llm_response := Responded True None\<rparr>"
  have q: "query_failed (session_response ?env1)" by simp
  have r1: "fst (debate_continue example_parse example_request ?env1) = Error500 PineconeQueryFailed"
    by (simp add: debate_continue_def example_env_def dual_retrieve_def Let_def)
  have f: "failed_response (Streaming [utf16 ''data: x\<newline>''] Errored)" by simp
  have k: "has_keys ?env3"
    and e: "embedding_response ?env3 = Responded True (Body 102)"
    and r: "dual_retrieve (corpus_response ?env3) (session_response ?env3) = Inr ([example_match], [])"
    and l: "llm_response ?env3 = Responded True None"
    using example_retrieve by (simp_all add: example_env_def)
  have c: "concat ([] :: jsstring list) = []" by simp
  note w1 = failed_stage_restores_conversation
      [where env = ?env1 and chunks = "[]" and parse = example_parse and req = example_request
         and cparse = "\<lambda>data. None" and d = example_page and response = NoStream
         and e = 102 and cm = "[]" and sm = "[]"]
  note w2 = failed_stage_restores_conversation
      [where response = "Streaming [utf16 ''data: x\<newline>''] Errored"
         and cparse = "\<lambda>data. Some \<lparr>p_done = False, p_fullText = Str (utf16 ''Because''),
                                     p_turn_index = 0, p_retrieved = []\<rparr>"
         and d = example_page and env = example_env and chunks = "[]" and parse = example_parse
         and req = example_request and e = 102 and cm = "[]" and sm = "[]"]
  note w3 = failed_stage_restores_conversation
      [where env = ?env3 and chunks = "[]" and parse = example_parse and req = example_request
         and cparse = "\<lambda>data. None" and d = example_page and e = 102
         and cm = "[example_match]" and sm = "[]" and response = NoStream]
  from w1 q have a1: "conversation (handleSendMessage (\<lambda>data. None)
        (page_sees [] (fst (debate_continue example_parse example_request ?env1))) example_page)
       = conversation example_page"
    by blast
  from w2 f have a2: "conversation (handleSendMessage
        (\<lambda>data. Some \<lparr>p_done = False, p_fullText = Str (utf16 ''Because''), p_turn_index = 0,
                       p_retrieved = []\<rparr>)
        (Streaming [utf16 ''data: x\<newline>''] Errored) example_page)
       = conversation example_page"
    by blast
  from w3 k e r l c example_page_active(1,2)
  have a3: "conversation (handleSendMessage (\<lambda>data. None)
        (page_sees [] (fst (debate_continue example_parse example_request ?env3))) example_page)
       = conversation example_page
           @ [Some \<lparr>role = User, content = Str (userInput example_page)\<rparr>,
              Some \<lparr>role = Assistant, content = Str []\<rparr>]"
    by blast
  from q r1 a1 f a2 k e r l c example_page_active(1,2) a3 show ?thesis by blast
qed

text \<open>
  The claim C5 as it stands fails when the generation response is ok but has no body, so
  that no stream of the generator can be opened: the endpoint closes an empty stream, the
  page reads nothing and reports nothing, and the user's message stays in the conversation
  with an empty assistant message after it.
\<close>

theorem bodyless_generation_keeps_messages_counterexample:
  "fst (debate_continue example_parse example_request
          (example_env\<lparr>llm_response := Responded True None\<rparr>))
     = EventStream [] Closed
   \<and> conversation (handleSendMessage (\<lambda>data. None)
        (page_sees [] (EventStream [] Closed)) example_page)
     = [Some \<lparr>role = User,
              content = Str (utf16 ''Universal healthcare is necessary for a just society.'')\<rparr>,
        Some \<lparr>role = Assistant, content = Str (utf16 ''It is costly.'')\<rparr>,
        Some \<lparr>role = User, content = Str (utf16 ''Costs fall over time.'')\<rparr>,
        Some \<lparr>role = Assistant, content = Str []\<rparr>]
   \<and> conversation (handleSendMessage (\<lambda>data. None)
        (page_sees [] (EventStream [] Closed)) example_page)
     \<noteq> conversation example_page
   \<and> toasts (handleSendMessage (\<lambda>data. None)
        (page_sees [] (EventStream [] Closed)) example_page) = []"
proof -
  have r: "fst (debate_continue example_parse example_request
          (example_env\<lparr>llm_response := Responded True None\<rparr>))
     = EventStream [] Closed"
    by (simp add: debate_continue_def stream_start_def example_env_def dual_retrieve_def
          matches_or_empty_def dual_queries_def Let_def)
  have e: "trim [] = []" by (simp add: trim_def)
  have "handleSendMessage (\<lambda>data. None) (Streaming [] Closed) example_page
     = example_page\<lparr>conversation := conversation example_page
           @ [Some \<lparr>role = User, content = Str (userInput example_page)\<rparr>,
              Some \<lparr>role = Assistant, content = Str []\<rparr>],
         userInput := [], isLoading := False, fullText := Str [], sentenceBuffer := [],
         metadata := None\<rparr>"
    using example_page_active(1,2)
    by (simp add: handleSendMessage_def Let_def flush_buffer_def apply_metadata_def e)
  then have h: "handleSendMessage (\<lambda>data. None) (Streaming [] Closed) example_page
     = example_page\<lparr>conversation := conversation example_page
           @ [Some \<lparr>role = User, content = Str (utf16 ''Costs fall over time.'')\<rparr>,
              Some \<lparr>role = Assistant, content = Str []\<rparr>],
         userInput := [], isLoading := False, fullText := Str [], sentenceBuffer := [],
         metadata := None\<rparr>"
    by (simp only: example_page_active(3))
  have t: "toasts example_page = []"
    by (simp add: example_page_def enter_debate_def debate_page_init_def)
  show ?thesis using r t by (simp add: h example_page_active(4))
qed


section \<open>Playback order and stopping\<close>

lemma playNextInQueue_order:
  "started (playNextInQueue p) @ audioQueue (playNextInQueue p) = started p @ audioQueue p"
  by (cases "audioQueue p") (simp_all add: playNextInQueue_def Let_def)

lemma player_step_order:
  "e \<noteq> StopAudio \<Longrightarrow>
   started (player_step e p) @ audioQueue (player_step e p) = started p @ audioQueue p @ resolved [e]"
  by (cases e) (simp_all add: playNextInQueue_order queueAudio_def Let_def)

lemma resolved_append: "resolved (xs @ ys) = resolved xs @ resolved ys"
  by (induction xs rule: resolved.induct) simp_all

text \<open>
  Claim C2, as amended. A clip enters the queue when its synthesis call returns, so the
  queue holds the clips in the order in which the calls completed. As long as the audio is
  not stopped, the clips played so far followed by the clips still queued are exactly the
  clips whose synthesis has returned, in the order of return: playback follows the order
  of completion, which is the order of emission only when the calls complete in that
  order.
\<close>

theorem playback_follows_completion_order:
  assumes "\<not> has_stop es"
  shows "started (player_run es p) @ audioQueue (player_run es p)
           = started p @ audioQueue p @ resolved es"
  using assms
proof (induction es arbitrary: p)
  case Nil
  then show ?case by (simp add: player_run_def)
next
  case (Cons e es)
  have ne: "e \<noteq> StopAudio" using Cons.prems by auto
  have ns: "\<not> has_stop es" using Cons.prems by (cases e) auto
  have r: "resolved (e # es) = resolved [e] @ resolved es"
    using resolved_append[of "[e]" es] by simp
  have "player_run (e # es) p = player_run es (player_step e p)" by (simp add: player_run_def)
  then show ?case
    using Cons.IH[OF ns, of "player_step e p"] player_step_order[OF ne, of p] r by simp
qed

theorem playback_follows_completion_order_witness:
  "\<not> has_stop [PlayTTS (utf16 ''One.''), PlayTTS (utf16 ''Two.''),
                 TTSResolved (utf16 ''One.''), TTSResolved (utf16 ''Two.''), AudioEnded]
   \<and> started (player_run [PlayTTS (utf16 ''One.''), PlayTTS (utf16 ''Two.''),
                 TTSResolved (utf16 ''One.''), TTSResolved (utf16 ''Two.''), AudioEnded] player_init)
     @ audioQueue (player_run [PlayTTS (utf16 ''One.''), PlayTTS (utf16 ''Two.''),
                 TTSResolved (utf16 ''One.''), TTSResolved (utf16 ''Two.''), AudioEnded] player_init)
     = [utf16 ''One.'', utf16 ''Two.'']"
  using playback_follows_completion_order
          [of "[PlayTTS (utf16 ''One.''), PlayTTS (utf16 ''Two.''),
                TTSResolved (utf16 ''One.''), TTSResolved (utf16 ''Two.''), AudioEnded]" player_init]
  by (simp add: player_init_def)

text \<open>
  The claim C2 as it stands fails when the second sentence is synthesized before the
  first: the sentences were emitted as One, Two, and the clips are played as Two, One.
\<close>

theorem playback_out_of_emission_order_counterexample:
  "requested (player_run [PlayTTS (utf16 ''One.''), PlayTTS (utf16 ''Two.''),
                 TTSResolved (utf16 ''Two.''), TTSResolved (utf16 ''One.''),
                 AudioEnded, AudioEnded] player_init)
     = [utf16 ''One.'', utf16 ''Two.'']
   \<and> started (player_run [PlayTTS (utf16 ''One.''), PlayTTS (utf16 ''Two.''),
                 TTSResolved (utf16 ''Two.''), TTSResolved (utf16 ''One.''),
                 AudioEnded, AudioEnded] player_init)
     = [utf16 ''Two.'', utf16 ''One.'']"
  by (simp add: player_run_def player_init_def queueAudio_def playNextInQueue_def Let_def)

text \<open>
  Claim C8, as amended. \<open>stopAudio\<close> empties the queue, marks the queue as not playing and
  pauses the element; doing it twice is the same as doing it once, the queue empty both
  times. It starts nothing and cancels nothing: a synthesis call still in flight is left
  to complete, and when it completes after the stop its clip is queued and played at
  once.
\<close>

theorem stop_audio_clears_and_is_idempotent:
  "audioQueue (stopAudio p) = []
   \<and> isPlayingQueue (stopAudio p) = False
   \<and> isPlayingAudio (stopAudio p) = False
   \<and> (case audioRef (stopAudio p) of None \<Rightarrow> True | Some a \<Rightarrow> paused a)
   \<and> started (stopAudio p) = started p
   \<and> stopAudio (stopAudio p) = stopAudio p
   \<and> audioQueue (stopAudio (stopAudio p)) = []
   \<and> started (player_step (TTSResolved text) (stopAudio p)) = started p @ [text]"
  by (cases "audioRef p") (simp_all add: stopAudio_def queueAudio_def playNextInQueue_def Let_def)

text \<open>
  The claim C8 as it stands fails for a sentence whose synthesis is in flight when the
  audio is stopped: its clip is played after the stop.
\<close>

theorem in_flight_clip_played_after_stop_counterexample:
  "started (player_run [PlayTTS (utf16 ''One.''), StopAudio, TTSResolved (utf16 ''One.'')] player_init)
     = [utf16 ''One.'']"
  by (simp add: player_run_def player_init_def queueAudio_def playNextInQueue_def Let_def
      stopAudio_def)


section \<open>The turn-continuation endpoint: calls, events and failures\<close>

text \<open>The request that succeeds at every step: its stream and its calls.\<close>

lemma debate_continue_success:
  assumes "has_keys env"
    and "embedding_response env = Responded True (Body e)"
    and "dual_retrieve (corpus_response env) (session_response env) = Inr (cm, sm)"
    and "llm_response env = Responded True (Some (chunks, Closed))"
    and "ai_embedding_response env = Responded ok (Body ae)"
  shows "debate_continue parse req env =
           (EventStream (enqueued (forward_all parse chunks)
                          @ [DoneEvent (fullAnswer (forward_all parse chunks)) (retrieved_sources cm)
                               (turn_index req + 1)]) Closed,
            [EmbedCall (user_reply req), QueryCall e 7 [], QueryCall e 3 (session_id req),
             GenerateCall (prompt req cm sm),
             UpsertCall (user_upsert req e (user_timestamp env)),
             EmbedCall (fullAnswer (forward_all parse chunks)),
             UpsertCall (ai_upsert req (fullAnswer (forward_all parse chunks)) ae (ai_timestamp env))])"
  using assms by (simp add: debate_continue_def stream_start_def dual_queries_def Let_def)

lemma example_forward:
  "forward_all example_parse example_stream =
     \<lparr>fullAnswer = utf16 ''No. Costs rise.'',
      enqueued = [TextEvent (utf16 ''No.'') (utf16 ''No.''),
                  TextEvent (utf16 '' Costs rise.'') (utf16 ''No. Costs rise.'')]\<rparr>"
  by (simp add: forward_all_def forward_chunk_def forward_line_def example_stream_def
        example_parse_def gemini_json_def text_chunk_def chunk_text_def starts_with_def utf16_def
        Let_def)

lemma example_continue:
  "debate_continue example_parse example_request example_env =
     (EventStream [TextEvent (utf16 ''No.'') (utf16 ''No.''),
                   TextEvent (utf16 '' Costs rise.'') (utf16 ''No. Costs rise.''),
                   DoneEvent (utf16 ''No. Costs rise.'') (retrieved_sources [example_match]) 2] Closed,
      [EmbedCall (utf16 ''Costs fall over time.''),
       QueryCall 102 7 [],
       QueryCall 102 3 (utf16 ''s1''),
       GenerateCall (prompt example_request [example_match] []),
       UpsertCall (user_upsert example_request 102 (utf16 ''t2'')),
       EmbedCall (utf16 ''No. Costs rise.''),
       UpsertCall (ai_upsert example_request (utf16 ''No. Costs rise.'') 103 (utf16 ''t3''))])"
proof -
  have k: "has_keys example_env"
    and e: "embedding_response example_env = Responded True (Body 102)"
    and l: "llm_response example_env = Responded True (Some (example_stream, Closed))"
    and a: "ai_embedding_response example_env = Responded True (Body 103)"
    by (simp_all add: example_env_def)
  have "user_reply example_request = utf16 ''Costs fall over time.''"
    and "session_id example_request = utf16 ''s1''"
    and "turn_index example_request + 1 = 2"
    and "user_timestamp example_env = utf16 ''t2''"
    and "ai_timestamp example_env = utf16 ''t3''"
    by (simp_all add: example_request_def example_env_def)
  then show ?thesis
    unfolding debate_continue_success[OF k e example_retrieve l a] example_forward by simp
qed

text \<open>
  Claim C9. When the request succeeds, the endpoint upserts exactly two vectors, both into
  the namespace of the session: the user turn under the identifier
  \<open>{session_id}::turn::{turn_index}\<close> with the vector that was computed for the query, and
  the assistant turn under \<open>{session_id}::turn::{turn_index + 1}\<close> with the vector returned
  for the answer; each carries role, text, turn index and timestamp. The embedding service
  is called exactly twice: on the user's reply, before retrieval, and on the finished
  answer.
\<close>

theorem session_memory_upserts:
  assumes "has_keys env"
    and "embedding_response env = Responded True (Body e)"
    and "dual_retrieve (corpus_response env) (session_response env) = Inr (cm, sm)"
    and "llm_response env = Responded True (Some (chunks, Closed))"
    and "ai_embedding_response env = Responded ok (Body ae)"
  shows "upserts_of (snd (debate_continue parse req env)) =
           [\<lparr>up_id = session_id req @ utf16 ''::turn::'' @ show_nat (turn_index req),
             up_values = e,
             up_role = utf16 ''user'',
             up_text = user_reply req,
             up_turn_index = turn_index req,
             up_timestamp = user_timestamp env,
             up_extra = [],
             up_namespace = session_id req\<rparr>,
            \<lparr>up_id = session_id req @ utf16 ''::turn::'' @ show_nat (turn_index req + 1),
             up_values = ae,
             up_role = utf16 ''assistant'',
             up_text = fullAnswer (forward_all parse chunks),
             up_turn_index = turn_index req + 1,
             up_timestamp = ai_timestamp env,
             up_extra = [],
             up_namespace = session_id req\<rparr>]
       \<and> embedded_texts (snd (debate_continue parse req env)) =
           [user_reply req, fullAnswer (forward_all parse chunks)]"
  unfolding debate_continue_success[OF assms]
  by (simp add: user_upsert_def ai_upsert_def turn_id_def del: show_nat.simps)

theorem session_memory_upserts_witness:
  "has_keys example_env
   \<and> embedding_response example_env = Responded True (Body 102)
   \<and> dual_retrieve (corpus_response example_env) (session_response example_env)
       = Inr ([example_match], [])
   \<and> llm_response example_env = Responded True (Some (example_stream, Closed))
   \<and> ai_embedding_response example_env = Responded True (Body 103)
   \<and> upserts_of (snd (debate_continue example_parse example_request example_env)) =
           [\<lparr>up_id = utf16 ''s1::turn::1'',
             up_values = 102,
             up_role = utf16 ''user'',
             up_text = utf16 ''Costs fall over time.'',
             up_turn_index = 1,
             up_timestamp = utf16 ''t2'',
             up_extra = [],
             up_namespace = utf16 ''s1''\<rparr>,
            \<lparr>up_id = utf16 ''s1::turn::2'',
             up_values = 103,
             up_role = utf16 ''assistant'',
             up_text = utf16 ''No. Costs rise.'',
             up_turn_index = 2,
             up_timestamp = utf16 ''t3'',
             up_extra = [],
             up_namespace = utf16 ''s1''\<rparr>]
   \<and> embedded_texts (snd (debate_continue example_parse example_request example_env)) =
           [utf16 ''Costs fall over time.'', utf16 ''No. Costs rise.'']"
proof -
  have k: "has_keys example_env"
    and e: "embedding_response example_env = Responded True (Body 102)"
    and l: "llm_response example_env = Responded True (Some (example_stream, Closed))"
    and a: "ai_embedding_response example_env = Responded True (Body 103)"
    by (simp_all add: example_env_def)
  have r: "session_id example_request @ utf16 ''::turn::'' @ show_nat (turn_index example_request)
             = utf16 ''s1::turn::1''"
       "session_id example_request @ utf16 ''::turn::'' @ show_nat (turn_index example_request + 1)
             = utf16 ''s1::turn::2''"
       "user_reply example_request = utf16 ''Costs fall over time.''"
       "session_id example_request = utf16 ''s1''"
       "turn_index example_request = 1"
       "user_timestamp example_env = utf16 ''t2''"
       "ai_timestamp example_env = utf16 ''t3''"
    by (simp_all add: example_request_def example_env_def utf16_def)
  from session_memory_upserts[OF k e example_retrieve l a, of example_parse example_request]
  show ?thesis using k e example_retrieve l a unfolding example_forward r
    by (simp add: utf16_def)
qed

text \<open>
  Claim C4. Once the reply is embedded, the endpoint sends the two queries, and always
  both: the corpus query with \<open>topK\<close> 7 in the global (empty) namespace and the session
  query with \<open>topK\<close> 3 in the namespace of the session, on the same vector. The two are
  sent before either answer is looked at (that they are in flight together is
  \<open>Promise.all\<close>, which a call list cannot show). If either query fails, the request as
  a whole fails at this step: status 500, no generation call, no stream, no upsert.
\<close>

theorem dual_scope_retrieval_all_or_nothing:
  assumes "has_keys env" and "embedding_response env = Responded True (Body e)"
  shows "take 3 (snd (debate_continue parse req env))
           = [EmbedCall (user_reply req), QueryCall e 7 [], QueryCall e 3 (session_id req)]
       \<and> (query_failed (corpus_response env) \<or> query_failed (session_response env) \<longrightarrow>
            debate_continue parse req env
              = (Error500 PineconeQueryFailed,
                 [EmbedCall (user_reply req), QueryCall e 7 [], QueryCall e 3 (session_id req)]))"
proof -
  have a: "take 3 (snd (debate_continue parse req env))
           = [EmbedCall (user_reply req), QueryCall e 7 [], QueryCall e 3 (session_id req)]"
    using assms
    by (auto simp: debate_continue_def dual_queries_def Let_def
             split: sum.splits fetched.splits prod.splits)
  have b: "debate_continue parse req env
              = (Error500 PineconeQueryFailed,
                 [EmbedCall (user_reply req), QueryCall e 7 [], QueryCall e 3 (session_id req)])"
    if "query_failed (corpus_response env) \<or> query_failed (session_response env)"
    using assms dual_retrieve_failed[OF that]
    by (simp add: debate_continue_def dual_queries_def Let_def)
  from a b show ?thesis by blast
qed

theorem dual_scope_retrieval_all_or_nothing_witness:
  "has_keys (example_env\<lparr>session_response := Responded False Unreadable\<rparr>)
   \<and> embedding_response (example_env\<lparr>session_response := Responded False Unreadable\<rparr>)
       = Responded True (Body 102)
   \<and> query_failed (corpus_response (example_env\<lparr>session_response := Responded False Unreadable\<rparr>))
       = False
   \<and> query_failed (session_response (example_env\<lparr>session_response := Responded False Unreadable\<rparr>))
   \<and> debate_continue example_parse example_request
        (example_env\<lparr>session_response := Responded False Unreadable\<rparr>)
       = (Error500 PineconeQueryFailed,
          [EmbedCall (utf16 ''Costs fall over time.''), QueryCall 102 7 [],
           QueryCall 102 3 (utf16 ''s1'')])"
proof -
  let ?env = "example_env\<lparr>session_response := Responded False Unreadable\<rparr>"
  have k: "has_keys ?env"
    and e: "embedding_response ?env = Responded True (Body 102)"
    and c: "query_failed (corpus_response ?env) = False"
    and q: "query_failed (session_response ?env)"
    by (simp_all add: example_env_def)
  have r: "user_reply example_request = utf16 ''Costs fall over time.''"
       "session_id example_request = utf16 ''s1''"
    by (simp_all add: example_request_def)
  from dual_scope_retrieval_all_or_nothing[OF k e, of example_parse example_request] q
  have "debate_continue example_parse example_request ?env
       = (Error500 PineconeQueryFailed,
          [EmbedCall (utf16 ''Costs fall over time.''), QueryCall 102 7 [],
           QueryCall 102 3 (utf16 ''s1'')])"
    unfolding r by blast
  with k e c q show ?thesis by blast
qed

lemma chained_append:
  "chained prev (es @ es')
     = (chained prev es \<and> chained (last (prev # map event_fullText es)) es')"
  by (induction prev es rule: chained.induct) auto

lemma chained_growing: "chained prev es \<Longrightarrow> growing prev (map event_fullText es)"
  by (induction prev es rule: chained.induct) auto

lemma forward_line_chained:
  assumes "chained [] (enqueued f)"
    and "fullAnswer f = last ([] # map event_fullText (enqueued f))"
  shows "chained [] (enqueued (forward_line parse f line))
       \<and> fullAnswer (forward_line parse f line)
           = last ([] # map event_fullText (enqueued (forward_line parse f line)))"
  using assms by (auto simp: forward_line_def Let_def chained_append split: option.splits)

lemma forward_lines_chained:
  "chained [] (enqueued f) \<Longrightarrow> fullAnswer f = last ([] # map event_fullText (enqueued f)) \<Longrightarrow>
   chained [] (enqueued (foldl (forward_line parse) f ls))
   \<and> fullAnswer (foldl (forward_line parse) f ls)
       = last ([] # map event_fullText (enqueued (foldl (forward_line parse) f ls)))"
proof (induction ls arbitrary: f)
  case Nil
  then show ?case by simp
next
  case (Cons l ls)
  from forward_line_chained[OF Cons.prems, of parse l]
  have a: "chained [] (enqueued (forward_line parse f l))"
   and b: "fullAnswer (forward_line parse f l)
             = last ([] # map event_fullText (enqueued (forward_line parse f l)))"
    by auto
  from Cons.IH[OF a b] show ?case by simp
qed

lemma forward_chunks_chained:
  "chained [] (enqueued f) \<Longrightarrow> fullAnswer f = last ([] # map event_fullText (enqueued f)) \<Longrightarrow>
   chained [] (enqueued (foldl (forward_chunk parse) f cs))
   \<and> fullAnswer (foldl (forward_chunk parse) f cs)
       = last ([] # map event_fullText (enqueued (foldl (forward_chunk parse) f cs)))"
proof (induction cs arbitrary: f)
  case Nil
  then show ?case by simp
next
  case (Cons c cs)
  from forward_lines_chained[OF Cons.prems, of parse "split_on 0xA c"]
  have a: "chained [] (enqueued (forward_chunk parse f c))"
   and b: "fullAnswer (forward_chunk parse f c)
             = last ([] # map event_fullText (enqueued (forward_chunk parse f c)))"
    by (auto simp: forward_chunk_def)
  from Cons.IH[OF a b] show ?case by simp
qed

lemma forward_all_chained:
  "chained [] (enqueued (forward_all parse cs))
   \<and> fullAnswer (forward_all parse cs)
       = last ([] # map event_fullText (enqueued (forward_all parse cs)))"
  unfolding forward_all_def by (rule forward_chunks_chained) simp_all

lemma stream_start_chained:
  assumes "stream_start parse req env e cm body = (EventStream evs ending, calls)"
  shows "chained [] evs"
proof (cases body)
  case None
  then show ?thesis using assms by (simp add: stream_start_def)
next
  case (Some ce)
  obtain chunks en where ce: "ce = (chunks, en)" by (cases ce)
  let ?f = "forward_all parse chunks"
  have c: "chained [] (enqueued ?f)"
    and l: "fullAnswer ?f = last ([] # map event_fullText (enqueued ?f))"
    using forward_all_chained[of parse chunks] by auto
  have d: "chained [] (enqueued ?f @ [DoneEvent (fullAnswer ?f) srcs n])" for srcs n
    using c l by (simp add: chained_append)
  show ?thesis
  proof (cases en)
    case Errored
    then show ?thesis using assms Some ce c by (simp add: stream_start_def Let_def)
  next
    case Closed
    then show ?thesis using assms Some ce d
      by (auto simp: stream_start_def Let_def split: fetched.splits json_body.splits)
  qed
qed

lemma chained_nth:
  "chained prev es \<Longrightarrow> k < length es \<Longrightarrow>
   event_fullText (es ! k)
     = (if k = 0 then prev else event_fullText (es ! (k - 1))) @ event_text (es ! k)"
proof (induction prev es arbitrary: k rule: chained.induct)
  case (1 prev)
  then show ?case by simp
next
  case (2 prev delta full es)
  then show ?case by (cases k) (auto simp: nth_Cons')
next
  case (3 prev full srcs idx es)
  then show ?case by (cases k) (auto simp: nth_Cons')
qed

lemma chained_suffix:
  assumes "chained prev es" and "k < length es"
  shows "drop (length (if k = 0 then prev else event_fullText (es ! (k - 1))))
           (event_fullText (es ! k))
         = event_text (es ! k)"
  using chained_nth[OF assms] by simp

text \<open>
  Claim C7. In every stream of events that the endpoint sends, however it ends, the first
  text event carries its delta as full text, every later text event carries the full text
  of the event before it with its own (non-empty) delta appended, and the final event
  carries the full text of the last text event. So every full text extends the one before
  it, and cutting an event's full text at the length of the full text before it (the
  empty text before the first event) gives exactly that event's delta, which is what the
  page computes.
\<close>

theorem forwarded_full_text_grows_by_deltas:
  assumes "fst (debate_continue parse req env) = EventStream evs ending"
  shows "chained [] evs
       \<and> growing [] (map event_fullText evs)
       \<and> (\<forall>k < length evs.
             drop (length (if k = 0 then [] else event_fullText (evs ! (k - 1))))
               (event_fullText (evs ! k))
             = event_text (evs ! k))"
proof -
  have c: "chained [] evs"
    using assms
    by (auto simp: debate_continue_def Let_def
             split: if_splits fetched.splits json_body.splits sum.splits prod.splits
             dest: stream_start_chained)
  then have "growing [] (map event_fullText evs)" by (rule chained_growing)
  moreover have "\<forall>k < length evs.
             drop (length (if k = 0 then [] else event_fullText (evs ! (k - 1))))
               (event_fullText (evs ! k))
             = event_text (evs ! k)"
    using chained_suffix[OF c] by blast
  ultimately show ?thesis using c by blast
qed

theorem forwarded_full_text_grows_by_deltas_witness:
  "fst (debate_continue example_parse example_request example_env)
     = EventStream [TextEvent (utf16 ''No.'') (utf16 ''No.''),
                    TextEvent (utf16 '' Costs rise.'') (utf16 ''No. Costs rise.''),
                    DoneEvent (utf16 ''No. Costs rise.'') (retrieved_sources [example_match]) 2] Closed
   \<and> chained [] [TextEvent (utf16 ''No.'') (utf16 ''No.''),
                  TextEvent (utf16 '' Costs rise.'') (utf16 ''No. Costs rise.''),
                  DoneEvent (utf16 ''No. Costs rise.'') (retrieved_sources [example_match]) 2]
   \<and> growing [] (map event_fullText
                 [TextEvent (utf16 ''No.'') (utf16 ''No.''),
                  TextEvent (utf16 '' Costs rise.'') (utf16 ''No. Costs rise.''),
                  DoneEvent (utf16 ''No. Costs rise.'') (retrieved_sources [example_match]) 2])
   \<and> drop (length (utf16 ''No.'')) (utf16 ''No. Costs rise.'') = utf16 '' Costs rise.''"
proof -
  let ?evs = "[TextEvent (utf16 ''No.'') (utf16 ''No.''),
               TextEvent (utf16 '' Costs rise.'') (utf16 ''No. Costs rise.''),
               DoneEvent (utf16 ''No. Costs rise.'') (retrieved_sources [example_match]) 2]"
  have e: "fst (debate_continue example_parse example_request example_env) = EventStream ?evs Closed"
    by (simp add: example_continue)
  note w = forwarded_full_text_grows_by_deltas[OF e]
  have k: "(1::nat) < length ?evs" by simp
  from w have "drop (length (if (1::nat) = 0 then [] else event_fullText (?evs ! (1 - 1))))
               (event_fullText (?evs ! 1))
             = event_text (?evs ! 1)"
    using k by blast
  then have "drop (length (utf16 ''No.'')) (utf16 ''No. Costs rise.'') = utf16 '' Costs rise.''"
    by simp
  with w e show ?thesis by blast
qed


section \<open>Turn indices over a session\<close>

lemma example_start:
  "debate_start example_start_request example_start_env =
     (StartOk \<lparr>sr_answer = utf16 ''It is costly.'', sr_retrieved = [],
               sr_session_id = utf16 ''s1'', sr_turn_index = 1\<rparr>,
      [\<lparr>up_id = utf16 ''s1::turn::0'', up_values = 100, up_role = utf16 ''user'',
        up_text = utf16 ''Universal healthcare is necessary for a just society.'',
        up_turn_index = 0, up_timestamp = utf16 ''t0'',
        up_extra = [(utf16 ''category'', utf16 ''politics''),
                    (utf16 ''debate_experience'', utf16 ''Intermediate''),
                    (utf16 ''ai_level'', utf16 ''Competitive'')],
        up_namespace = utf16 ''s1''\<rparr>,
       \<lparr>up_id = utf16 ''s1::turn::1'', up_values = 101, up_role = utf16 ''assistant'',
        up_text = utf16 ''It is costly.'', up_turn_index = 1,
        up_timestamp = utf16 ''t1'', up_extra = [], up_namespace = utf16 ''s1''\<rparr>])"
  by (simp add: debate_start_def start_store_def example_start_request_def example_start_env_def
        or_else_def turn_id_def retrieved_sources_def matches_or_empty_def Let_def utf16_def)

text \<open>
  Claim C3, on the worked session. Opening the debate stores the user's turn under index
  0 and the reply under index 1, and answers with turn index 1. The page posts that index
  with the next message, and the endpoint stores this message under index 1 again, the
  identifier \<open>s1::turn::1\<close> of the stored reply, and its own answer under index 2, which it
  reports as the new turn index: the exchange has advanced the index by one, not by two,
  and an index already assigned has been used a second time.
\<close>

theorem first_exchange_reuses_turn_index:
  "map up_id (snd (debate_start example_start_request example_start_env))
     = [utf16 ''s1::turn::0'', utf16 ''s1::turn::1'']
   \<and> map up_role (snd (debate_start example_start_request example_start_env))
     = [utf16 ''user'', utf16 ''assistant'']
   \<and> fst (debate_start example_start_request example_start_env)
     = StartOk \<lparr>sr_answer = utf16 ''It is costly.'', sr_retrieved = [],
                sr_session_id = utf16 ''s1'', sr_turn_index = 1\<rparr>
   \<and> rb_turn_index (post_body example_constants
        ((enter_debate (opening_argument example_start_request)
            \<lparr>sr_answer = utf16 ''It is costly.'', sr_retrieved = [],
             sr_session_id = utf16 ''s1'', sr_turn_index = 1\<rparr>)
         \<lparr>userInput := utf16 ''Costs fall over time.''\<rparr>))
     = turn_index example_request
   \<and> map up_id (upserts_of (snd (debate_continue example_parse example_request example_env)))
     = [utf16 ''s1::turn::1'', utf16 ''s1::turn::2'']
   \<and> map up_role (upserts_of (snd (debate_continue example_parse example_request example_env)))
     = [utf16 ''user'', utf16 ''assistant'']
   \<and> fst (debate_continue example_parse example_request example_env)
     = EventStream [TextEvent (utf16 ''No.'') (utf16 ''No.''),
                    TextEvent (utf16 '' Costs rise.'') (utf16 ''No. Costs rise.''),
                    DoneEvent (utf16 ''No. Costs rise.'') (retrieved_sources [example_match]) 2]
         Closed"
proof -
  have p: "rb_turn_index (post_body example_constants
        ((enter_debate (opening_argument example_start_request)
            \<lparr>sr_answer = utf16 ''It is costly.'', sr_retrieved = [],
             sr_session_id = utf16 ''s1'', sr_turn_index = 1\<rparr>)
         \<lparr>userInput := utf16 ''Costs fall over time.''\<rparr>))
     = turn_index example_request"
    by (simp add: post_body_def enter_debate_def debate_page_init_def example_request_def)
  have u: "map up_id (upserts_of (snd (debate_continue example_parse example_request example_env)))
     = [utf16 ''s1::turn::1'', utf16 ''s1::turn::2'']"
    and r: "map up_role (upserts_of (snd (debate_continue example_parse example_request example_env)))
     = [utf16 ''user'', utf16 ''assistant'']"
    unfolding example_continue
    by (simp_all add: user_upsert_def ai_upsert_def turn_id_def example_request_def utf16_def)
  show ?thesis unfolding example_start using p u r by (simp add: example_continue)
qed


section \<open>Malformed lines and the end of the stream\<close>































section \<open>The prompt\<close>

declare show_nat.simps [simp del]

lemma join_terminated:
  "xs \<noteq> [] \<Longrightarrow> join sep xs @ sep = concat (map (\<lambda>x. x @ sep) xs)"
  by (induction sep xs rule: join.induct) simp_all

lemma zip_with_index:
  "zip [0..<length xs] xs = map (\<lambda>k. (k, xs ! k)) [0..<length xs]"
  by (rule nth_equalityI) simp_all

lemma corpus_lines_indexed:
  "corpus_lines cm =
     map (\<lambda>k. utf16 ''[Source '' @ show_nat (k + 1) @ utf16 '']: ''
               @ (case match_metadata (cm ! k) of
                    None \<Rightarrow> utf16 ''No summary available''
                  | Some md \<Rightarrow>
                      (case md_summary md of
                         None \<Rightarrow> utf16 ''No summary available''
                       | Some s \<Rightarrow> if s = [] then utf16 ''No summary available'' else s)))
         [0..<length cm]"
  unfolding corpus_lines_def zip_with_index
  by (simp add: corpus_line_def or_else_def metadata_summary_def split: option.splits)

lemma corpus_block:
  "if cm = [] then corpusContext cm = []
   else corpusContext cm @ utf16 ''\<newline>\<newline>'' =
     concat (map (\<lambda>k. utf16 ''[Source '' @ show_nat (k + 1) @ utf16 '']: ''
               @ (case match_metadata (cm ! k) of
                    None \<Rightarrow> utf16 ''No summary available''
                  | Some md \<Rightarrow>
                      (case md_summary md of
                         None \<Rightarrow> utf16 ''No summary available''
                       | Some s \<Rightarrow> if s = [] then utf16 ''No summary available'' else s))
               @ utf16 ''\<newline>\<newline>'')
         [0..<length cm])"
proof (cases "cm = []")
  case True
  then show ?thesis by (simp add: corpusContext_def corpus_lines_def)
next
  case False
  then have "corpus_lines cm \<noteq> []" by (simp add: corpus_lines_def)
  from join_terminated[OF this, of "utf16 ''\<newline>\<newline>''"] False show ?thesis
    unfolding corpusContext_def by (simp add: corpus_lines_indexed comp_def)
qed

lemma history_block:
  "if hist = [] then conversationSummary hist = []
   else conversationSummary hist @ utf16 ''\<newline>'' =
     concat (map (\<lambda>m. (if h_role m = utf16 ''user'' then utf16 ''User'' else utf16 ''AI'')
                        @ utf16 '': '' @ h_content m @ utf16 ''\<newline>'')
               (drop (length hist - 6) hist))"
proof (cases "hist = []")
  case True
  then show ?thesis by (simp add: conversationSummary_def history_lines_def slice_last_def)
next
  case False
  then have "length hist - 6 < length hist" by (cases hist) auto
  then have "history_lines hist \<noteq> []" by (simp add: history_lines_def slice_last_def)
  from join_terminated[OF this, of "utf16 ''\<newline>''"] False show ?thesis
    unfolding conversationSummary_def
    by (simp add: history_lines_def slice_last_def history_line_def comp_def)
qed

lemma show_nat_decimal:
  "foldl (\<lambda>a c. 10 * a + (unat c - 48)) 0 (show_nat n) = n
   \<and> list_all (\<lambda>c. 48 \<le> c \<and> c \<le> 57) (show_nat n)"
proof (induction n rule: show_nat.induct)
  case (1 n)
  have d: "unat (of_nat (48 + k) :: 16 word) = 48 + k" if "k < 10" for k
  proof -
    have "unat (of_nat (48 + k) :: 16 word) = (48 + k) mod 2 ^ LENGTH(16)"
      by (rule unat_of_nat)
    also have "\<dots> = 48 + k" using that by simp
    finally show ?thesis .
  qed
  have w: "(48 :: 16 word) \<le> of_nat (48 + k) \<and> (of_nat (48 + k) :: 16 word) \<le> 57" if "k < 10" for k
    using that d[OF that] by (simp add: word_le_nat_alt)
  show ?case
  proof (cases "n < 10")
    case True
    then show ?thesis using d[OF True] w[OF True] by (subst show_nat.simps, subst show_nat.simps) simp
  next
    case False
    have m: "n mod 10 < 10" by simp
    from 1[OF False] False d[OF m] w[OF m] show ?thesis
      by (subst show_nat.simps, subst show_nat.simps) simp
  qed
qed

text \<open>
  Claim C6. The prompt contains the rule \<open>NEVER reference source numbers higher than N\<close>
  with \<open>N\<close> the number of corpus matches, and, under the heading that counts the \<open>N\<close>
  sources, one entry for each match, in the order of retrieval, separated by empty lines:
  the \<open>k\<close>-th is \<open>[Source k]: \<close> followed by the summary of the \<open>k\<close>-th match (or
  \<open>No summary available\<close>). Under the heading \<open>Recent Conversation\<close> it contains one
  line \<open>User: ...\<close> or \<open>AI: ...\<close> for each of the last six messages of the history (all
  of them when there are fewer than six), in order, and it depends on no earlier message:
  put before six recent messages, any messages leave the prompt unchanged. The numbers
  are written in decimal digits.
\<close>

theorem prompt_labels_sources_and_bounds_history:
  "(\<exists>p0 p1 p2 p3 cb hb.
      prompt req cm sm =
        p0 @ (utf16 ''- NEVER reference source numbers higher than '' @ show_nat (length cm)
                @ utf16 ''\<newline>'')
           @ p1 @ (utf16 ''Retrieved Corpus Context (all '' @ show_nat (length cm)
                     @ utf16 '' sources):\<newline>'')
           @ cb @ utf16 ''\<newline>\<newline>Recent Session Context:\<newline>''
           @ p2 @ utf16 ''\<newline>\<newline>Recent Conversation:\<newline>''
           @ hb @ utf16 ''\<newline>\<newline>Debate Topic: '' @ p3
      \<and> (if cm = [] then cb = []
          else cb @ utf16 ''\<newline>\<newline>'' =
            concat (map (\<lambda>k. utf16 ''[Source '' @ show_nat (k + 1) @ utf16 '']: ''
                    @ (case match_metadata (cm ! k) of
                         None \<Rightarrow> utf16 ''No summary available''
                       | Some md \<Rightarrow>
                           (case md_summary md of
                              None \<Rightarrow> utf16 ''No summary available''
                            | Some s \<Rightarrow> if s = [] then utf16 ''No summary available'' else s))
                    @ utf16 ''\<newline>\<newline>'')
                      [0..<length cm]))
      \<and> (if conversation_history req = [] then hb = []
          else hb @ utf16 ''\<newline>'' =
            concat (map (\<lambda>m. (if h_role m = utf16 ''user'' then utf16 ''User'' else utf16 ''AI'')
                       @ utf16 '': '' @ h_content m @ utf16 ''\<newline>'')
                      (drop (length (conversation_history req) - 6) (conversation_history req)))))
   \<and> (length recent = 6 \<longrightarrow>
        prompt (req\<lparr>conversation_history := earlier @ recent\<rparr>) cm sm
          = prompt (req\<lparr>conversation_history := recent\<rparr>) cm sm)
   \<and> foldl (\<lambda>a c. 10 * a + (unat c - 48)) 0 (show_nat n) = n
   \<and> list_all (\<lambda>c. 48 \<le> c \<and> c \<le> 57) (show_nat n)"
proof -
  have sp: "utf16 ''\<newline>Retrieved Corpus Context (all ''
              = utf16 ''\<newline>'' @ utf16 ''Retrieved Corpus Context (all ''"
    by (simp add: utf16_def)
  have "prompt req cm sm =
        (prompt_opening @ have_access_rule (length cm) @ only_cite_rule (length cm))
          @ (utf16 ''- NEVER reference source numbers higher than '' @ show_nat (length cm)
               @ utf16 ''\<newline>'')
          @ (fixed_rules @ utf16 ''\<newline>'')
          @ (utf16 ''Retrieved Corpus Context (all '' @ show_nat (length cm)
               @ utf16 '' sources):\<newline>'')
          @ corpusContext cm @ utf16 ''\<newline>\<newline>Recent Session Context:\<newline>''
          @ sessionContext sm @ utf16 ''\<newline>\<newline>Recent Conversation:\<newline>''
          @ conversationSummary (conversation_history req)
          @ utf16 ''\<newline>\<newline>Debate Topic: ''
          @ (category req @ utf16 ''\<newline>User Experience: '' @ debate_experience req
              @ utf16 ''\<newline>AI Difficulty: '' @ ai_level req
              @ utf16 ''\<newline>\<newline>'' @ userPrompt req)"
    by (simp add: prompt_def systemPrompt_def never_rule_def corpus_heading_def sp
          session_heading_def conversation_heading_def session_settings_def)
  with corpus_block[of cm] history_block[of "conversation_history req"]
  have a: "(\<exists>p0 p1 p2 p3 cb hb.
      prompt req cm sm =
        p0 @ (utf16 ''- NEVER reference source numbers higher than '' @ show_nat (length cm)
                @ utf16 ''\<newline>'')
           @ p1 @ (utf16 ''Retrieved Corpus Context (all '' @ show_nat (length cm)
                     @ utf16 '' sources):\<newline>'')
           @ cb @ utf16 ''\<newline>\<newline>Recent Session Context:\<newline>''
           @ p2 @ utf16 ''\<newline>\<newline>Recent Conversation:\<newline>''
           @ hb @ utf16 ''\<newline>\<newline>Debate Topic: '' @ p3
      \<and> (if cm = [] then cb = []
          else cb @ utf16 ''\<newline>\<newline>'' =
            concat (map (\<lambda>k. utf16 ''[Source '' @ show_nat (k + 1) @ utf16 '']: ''
                    @ (case match_metadata (cm ! k) of
                         None \<Rightarrow> utf16 ''No summary available''
                       | Some md \<Rightarrow>
                           (case md_summary md of
                              None \<Rightarrow> utf16 ''No summary available''
                            | Some s \<Rightarrow> if s = [] then utf16 ''No summary available'' else s))
                    @ utf16 ''\<newline>\<newline>'')
                      [0..<length cm]))
      \<and> (if conversation_history req = [] then hb = []
          else hb @ utf16 ''\<newline>'' =
            concat (map (\<lambda>m. (if h_role m = utf16 ''user'' then utf16 ''User'' else utf16 ''AI'')
                       @ utf16 '': '' @ h_content m @ utf16 ''\<newline>'')
                      (drop (length (conversation_history req) - 6) (conversation_history req)))))"
    by blast
  have f: "prompt (req\<lparr>conversation_history := earlier @ recent\<rparr>) cm sm
          = prompt (req\<lparr>conversation_history := recent\<rparr>) cm sm" if "length recent = 6"
    using that
    by (simp add: prompt_def systemPrompt_def userPrompt_def conversationSummary_def
          history_lines_def session_settings_def slice_last_def)
  from a f show_nat_decimal[of n] show ?thesis by blast
qed

theorem prompt_labels_sources_and_bounds_history_witness:
  "(\<exists>p0 p1 p2 p3 cb hb.
      prompt example_request [example_match] [] =
        p0 @ (utf16 ''- NEVER reference source numbers higher than '' @ show_nat (length [example_match])
                @ utf16 ''\<newline>'')
           @ p1 @ (utf16 ''Retrieved Corpus Context (all '' @ show_nat (length [example_match])
                     @ utf16 '' sources):\<newline>'')
           @ cb @ utf16 ''\<newline>\<newline>Recent Session Context:\<newline>''
           @ p2 @ utf16 ''\<newline>\<newline>Recent Conversation:\<newline>''
           @ hb @ utf16 ''\<newline>\<newline>Debate Topic: '' @ p3
      \<and> (if [example_match] = [] then cb = []
          else cb @ utf16 ''\<newline>\<newline>'' =
            concat (map (\<lambda>k. utf16 ''[Source '' @ show_nat (k + 1) @ utf16 '']: ''
                    @ (case match_metadata ([example_match] ! k) of
                         None \<Rightarrow> utf16 ''No summary available''
                       | Some md \<Rightarrow>
                           (case md_summary md of
                              None \<Rightarrow> utf16 ''No summary available''
                            | Some s \<Rightarrow> if s = [] then utf16 ''No summary available'' else s))
                    @ utf16 ''\<newline>\<newline>'')
                      [0..<length [example_match]]))
      \<and> (if conversation_history example_request = [] then hb = []
          else hb @ utf16 ''\<newline>'' =
            concat (map (\<lambda>m. (if h_role m = utf16 ''user'' then utf16 ''User'' else utf16 ''AI'')
                       @ utf16 '': '' @ h_content m @ utf16 ''\<newline>'')
                      (drop (length (conversation_history example_request) - 6) (conversation_history example_request)))))
   \<and> length (example_history @ example_history @ example_history) = 6
   \<and> prompt (example_request\<lparr>conversation_history := example_history @ (example_history @ example_history @ example_history)\<rparr>) [example_match] []
          = prompt (example_request\<lparr>conversation_history := (example_history @ example_history @ example_history)\<rparr>) [example_match] []
   \<and> foldl (\<lambda>a c. 10 * a + (unat c - 48)) 0 (show_nat 12) = 12
   \<and> list_all (\<lambda>c. 48 \<le> c \<and> c \<le> 57) (show_nat 12)
   \<and> show_nat 12 = [49, 50]
   \<and> utf16 ''[Source '' = [91, 83, 111, 117, 114, 99, 101, 32]
   \<and> prompt example_request [example_match] [] =
       utf16 ''You are an expert debater engaged in an ongoing debate.\<newline>''
       @ utf16 ''\<newline>''
       @ utf16 ''CRITICAL RULES:\<newline>''
       @ utf16 ''- You have access to 1 sources\<newline>''
       @ utf16 ''- ONLY cite sources that exist: [Source 1] through [Source 1]\<newline>''
       @ utf16 ''- NEVER reference source numbers higher than 1\<newline>''
       @ utf16 ''- Use the retrieved context and conversation history, citing sources as [Source N] when using them\<newline>''
       @ utf16 ''- If the retrieved sources are insufficient or don't provide accurate information, you may use your general knowledge\<newline>''
       @ utf16 ''- Always cite sources when using information from them: e.g., \"Research indicates [Source 2] that...\" or \"[Source 5] demonstrates...\"\<newline>''
       @ utf16 ''- When using general knowledge (not from sources), do not cite a source number\<newline>''
       @ utf16 ''- Address the user's latest point directly\<newline>''
       @ utf16 ''- Build on previous arguments when relevant\<newline>''
       @ utf16 ''- CRITICAL: Your response MUST be between 100-150 words. Count your words carefully.\<newline>''
       @ utf16 ''\<newline>''
       @ utf16 ''Retrieved Corpus Context (all 1 sources):\<newline>''
       @ utf16 ''[Source 1]: Spending doubled.\<newline>''
       @ utf16 ''\<newline>''
       @ utf16 ''Recent Session Context:\<newline>''
       @ utf16 ''\<newline>''
       @ utf16 ''\<newline>''
       @ utf16 ''Recent Conversation:\<newline>''
       @ utf16 ''User: Universal healthcare is necessary for a just society.\<newline>''
       @ utf16 ''AI: It is costly.\<newline>''
       @ utf16 ''\<newline>''
       @ utf16 ''Debate Topic: politics\<newline>''
       @ utf16 ''User Experience: Intermediate\<newline>''
       @ utf16 ''AI Difficulty: Competitive\<newline>''
       @ utf16 ''\<newline>''
       @ utf16 ''User's latest argument: \"Costs fall over time.\"\<newline>''
       @ utf16 ''\<newline>''
       @ utf16 ''Provide a counterargument addressing their points in 100-150 words. Cite sources inline when using them.''"
proof -
  note t = prompt_labels_sources_and_bounds_history
      [of example_request "[example_match]" "[]" "(example_history @ example_history @ example_history)" example_history 12]
  have l: "length (example_history @ example_history @ example_history) = 6" by (simp add: example_history_def)
  have s: "show_nat 12 = [49, 50]"
    and u: "utf16 ''[Source '' = [91, 83, 111, 117, 114, 99, 101, 32]"
    by (simp_all add: utf16_def show_nat.simps)
  have p: "prompt example_request [example_match] [] =
       utf16 ''You are an expert debater engaged in an ongoing debate.\<newline>''
       @ utf16 ''\<newline>''
       @ utf16 ''CRITICAL RULES:\<newline>''
       @ utf16 ''- You have access to 1 sources\<newline>''
       @ utf16 ''- ONLY cite sources that exist: [Source 1] through [Source 1]\<newline>''
       @ utf16 ''- NEVER reference source numbers higher than 1\<newline>''
       @ utf16 ''- Use the retrieved context and conversation history, citing sources as [Source N] when using them\<newline>''
       @ utf16 ''- If the retrieved sources are insufficient or don't provide accurate information, you may use your general knowledge\<newline>''
       @ utf16 ''- Always cite sources when using information from them: e.g., \"Research indicates [Source 2] that...\" or \"[Source 5] demonstrates...\"\<newline>''
       @ utf16 ''- When using general knowledge (not from sources), do not cite a source number\<newline>''
       @ utf16 ''- Address the user's latest point directly\<newline>''
       @ utf16 ''- Build on previous arguments when relevant\<newline>''
       @ utf16 ''- CRITICAL: Your response MUST be between 100-150 words. Count your words carefully.\<newline>''
       @ utf16 ''\<newline>''
       @ utf16 ''Retrieved Corpus Context (all 1 sources):\<newline>''
       @ utf16 ''[Source 1]: Spending doubled.\<newline>''
       @ utf16 ''\<newline>''
       @ utf16 ''Recent Session Context:\<newline>''
       @ utf16 ''\<newline>''
       @ utf16 ''\<newline>''
       @ utf16 ''Recent Conversation:\<newline>''
       @ utf16 ''User: Universal healthcare is necessary for a just society.\<newline>''
       @ utf16 ''AI: It is costly.\<newline>''
       @ utf16 ''\<newline>''
       @ utf16 ''Debate Topic: politics\<newline>''
       @ utf16 ''User Experience: Intermediate\<newline>''
       @ utf16 ''AI Difficulty: Competitive\<newline>''
       @ utf16 ''\<newline>''
       @ utf16 ''User's latest argument: \"Costs fall over time.\"\<newline>''
       @ utf16 ''\<newline>''
       @ utf16 ''Provide a counterargument addressing their points in 100-150 words. Cite sources inline when using them.''"
    by (simp add: prompt_def systemPrompt_def userPrompt_def prompt_opening_def
          have_access_rule_def only_cite_rule_def never_rule_def fixed_rules_def
          corpus_heading_def session_heading_def conversation_heading_def session_settings_def
          corpusContext_def corpus_lines_def corpus_line_def sessionContext_def
          conversationSummary_def history_lines_def history_line_def slice_last_def
          or_else_def metadata_summary_def example_request_def example_match_def
          example_history_def utf16_def show_nat.simps)
  from t l have i: "prompt (example_request\<lparr>conversation_history := example_history @ (example_history @ example_history @ example_history)\<rparr>) [example_match] []
          = prompt (example_request\<lparr>conversation_history := (example_history @ example_history @ example_history)\<rparr>) [example_match] []"
    by blast
  from t l s u p i show ?thesis by blast
qed

end
